theory Spec2Isabelle
  imports Complex_Main "HOL-Library.Sublist" "HOL-Library.List_Lexorder" "HOL-Library.Char_ord" "HOL-Library.AList"
begin

section \<open>Repository tree walker (app/api/repos/[owner]/[name]/tree/route.ts)\<close>

subsection \<open>Data model\<close>

text \<open>
  A value caught by a \<^verbatim>\<open>catch\<close> clause. The walker reads two things of it: its
  \<^verbatim>\<open>status\<close> property (absent on a plain \<^verbatim>\<open>Error\<close>) and the text that
  \<^verbatim>\<open>getErrorMessage\<close> extracts from it.
\<close>

datatype thrown = Thrown (status: "nat option") (message: string)

text \<open>\<^verbatim>\<open>new Error(message)\<close>: an error object without a status property.\<close>

definition Error :: "string \<Rightarrow> thrown" where
  "Error m = Thrown None m"

text \<open>
  Modelled from the spec: \<^verbatim>\<open>getErrorMessage\<close> of \<^verbatim>\<open>app/_utils/errors\<close> is not among
  the source files. The spec says that failures are "normalized to their message": the
  helper returns the message text the thrown value carries.
\<close>

definition getErrorMessage :: "thrown \<Rightarrow> string" where
  "getErrorMessage e = message e"

text \<open>The entries the content API lists; \<^verbatim>\<open>type\<close> is one of four strings.\<close>

datatype entry_type = Dir | File | Symlink | Submodule

record entry =
  e_path :: string
  e_type :: entry_type
  e_size :: nat

text \<open>The API answers with an array of entries for a directory, one object otherwise.\<close>

datatype content = Listing "entry list" | Single entry

datatype node_type = NFile | NDir

text \<open>\<^verbatim>\<open>type Node = { path: string; type: "file" | "dir"; size?: number }\<close>\<close>

record Node =
  n_path :: string
  n_type :: node_type
  n_size :: "nat option"

text \<open>
  The external collaborators: credential resolution (\<open>Some e\<close> when it throws \<open>e\<close>)
  and the content fetch for an owner, a repository and a path.
\<close>

record github =
  getOctokitForUser :: "thrown option"
  getContent :: "string \<Rightarrow> string \<Rightarrow> string \<Rightarrow> thrown + content"

definition MAX_DEPTH :: nat where
  "MAX_DEPTH = 6"

text \<open>\<^verbatim>\<open>const entries = Array.isArray(data) ? data : [data]\<close>\<close>

fun entries_of :: "content \<Rightarrow> entry list" where
  "entries_of (Listing es) = es"
| "entries_of (Single e) = [e]"

definition dir_node :: "entry \<Rightarrow> Node" where
  "dir_node e = \<lparr>n_path = e_path e, n_type = NDir, n_size = None\<rparr>"

definition file_node :: "entry \<Rightarrow> Node" where
  "file_node e = \<lparr>n_path = e_path e, n_type = NFile, n_size = Some (e_size e)\<rparr>"

subsection \<open>The walk\<close>

text \<open>
  \<open>walk\<close> is the source function; \<open>walk_entries\<close> is its \<^verbatim>\<open>for\<close> loop over the
  fetched entries, which pushes to \<^verbatim>\<open>out\<close> in order. A throw inside the
  \<^verbatim>\<open>try\<close> block (from the fetch or from a recursive call) reaches the
  \<^verbatim>\<open>catch\<close> clause, which rethrows \<^verbatim>\<open>new Error(message)\<close>. The credential
  lookup stands before the \<^verbatim>\<open>try\<close>: what it throws leaves the call unchanged.
\<close>

function walk :: "github \<Rightarrow> string \<Rightarrow> string \<Rightarrow> string \<Rightarrow> nat \<Rightarrow> thrown + Node list"
  and walk_entries :: "github \<Rightarrow> string \<Rightarrow> string \<Rightarrow> entry list \<Rightarrow> nat \<Rightarrow> thrown + Node list"
where
  "walk api owner repo p depth =
     (if depth > MAX_DEPTH then Inr []
      else case getOctokitForUser api of
        Some e \<Rightarrow> Inl e
      | None \<Rightarrow>
          (case (case getContent api owner repo p of
                   Inl err \<Rightarrow> Inl err
                 | Inr data \<Rightarrow> walk_entries api owner repo (entries_of data) depth) of
             Inl err \<Rightarrow>
               Inl (Error (if status err = Some 404 then ''Not Found'' else getErrorMessage err))
           | Inr out \<Rightarrow> Inr out))"
| "walk_entries api owner repo [] depth = Inr []"
| "walk_entries api owner repo (e # es) depth =
     (case e_type e of
        Dir \<Rightarrow>
          (case walk api owner repo (e_path e) (depth + 1) of
             Inl err \<Rightarrow> Inl err
           | Inr sub \<Rightarrow>
               (case walk_entries api owner repo es depth of
                  Inl err \<Rightarrow> Inl err
                | Inr rest \<Rightarrow> Inr (dir_node e # sub @ rest)))
      | File \<Rightarrow>
          (case walk_entries api owner repo es depth of
             Inl err \<Rightarrow> Inl err
           | Inr rest \<Rightarrow> Inr (file_node e # rest))
      | Symlink \<Rightarrow> walk_entries api owner repo es depth
      | Submodule \<Rightarrow> walk_entries api owner repo es depth)"
  by pat_completeness auto
termination
  by (relation "measures
        [case_sum
           (\<lambda>(api, owner, repo, p, depth).
              if depth > MAX_DEPTH then 0 else 2 * (MAX_DEPTH + 1 - depth) + 2)
           (\<lambda>(api, owner, repo, es, depth). 2 * (MAX_DEPTH + 1 - depth) + 1),
         case_sum
           (\<lambda>(api, owner, repo, p, depth). 0)
           (\<lambda>(api, owner, repo, es, depth). length es)]")
    (auto simp: MAX_DEPTH_def)

subsection \<open>The handler\<close>

datatype tree_response = Json "Node list" | Text string nat

text \<open>\<^verbatim>\<open>GET\<close>: the walk starts at the root path with the default depth 0.\<close>

definition GET :: "github \<Rightarrow> string \<Rightarrow> string \<Rightarrow> tree_response" where
  "GET api owner name =
     (case walk api owner name '''' 0 of
        Inr nodes \<Rightarrow> Json nodes
      | Inl e \<Rightarrow>
          (let msg = getErrorMessage e;
               status = (if msg = ''Unauthorized'' \<or> msg = ''No GitHub token'' then 401
                         else if msg = ''Not Found'' then 404 else 502)
           in Text msg status))"

subsection \<open>Example repositories\<close>

text \<open>
  The repository of the spec's end-to-end example: a file \<^verbatim>\<open>README.md\<close> of size 10 and a
  directory \<^verbatim>\<open>src\<close> holding \<^verbatim>\<open>src/index.ts\<close> of size 20; every other path
  is answered with a 404.
\<close>

definition demo_api :: github where
  "demo_api = \<lparr>getOctokitForUser = None,
     getContent = (\<lambda>owner repo p.
       if owner = ''acme'' \<and> repo = ''demo'' \<and> p = '''' then
         Inr (Listing [\<lparr>e_path = ''README.md'', e_type = File, e_size = 10\<rparr>,
                       \<lparr>e_path = ''src'', e_type = Dir, e_size = 0\<rparr>])
       else if owner = ''acme'' \<and> repo = ''demo'' \<and> p = ''src'' then
         Inr (Listing [\<lparr>e_path = ''src/index.ts'', e_type = File, e_size = 20\<rparr>])
       else Inl (Thrown (Some 404) ''Not Found''))\<rparr>"


text \<open>A session without a token, and an API that is out of quota.\<close>

definition no_token_api :: github where
  "no_token_api = \<lparr>getOctokitForUser = Some (Error ''No GitHub token''),
     getContent = (\<lambda>owner repo p. Inr (Listing []))\<rparr>"

definition rate_limited_api :: github where
  "rate_limited_api = \<lparr>getOctokitForUser = None,
     getContent = (\<lambda>owner repo p. Inl (Thrown (Some 403) ''API rate limit exceeded''))\<rparr>"


text \<open>
  An error that the \<^verbatim>\<open>catch\<close> clause of \<open>walk\<close> made from a failed fetch of some
  path of the repository.
\<close>

definition from_fetch :: "github \<Rightarrow> string \<Rightarrow> string \<Rightarrow> thrown \<Rightarrow> bool" where
  "from_fetch api owner repo e \<longleftrightarrow>
     (\<exists>q err. getContent api owner repo q = Inl err \<and>
        e = Error (if status err = Some 404 then ''Not Found'' else getErrorMessage err))"

section \<open>PDF exporter (app/api/export/pdf/route.ts)\<close>

subsection \<open>Requests, responses and the collaborators\<close>

text \<open>
  Text is a list of bytes (UTF-8). A parsed JSON value; an object keeps its members in the
  order of the text, and a lookup takes the last member of a name, as \<^verbatim>\<open>JSON.parse\<close>
  does.
\<close>

datatype json =
  JNull | JBool bool | JNum rat | JStr string | JArr "json list" | JObj "(string \<times> json) list"

text \<open>Reading a property: \<open>None\<close> is \<^verbatim>\<open>undefined\<close>. Only objects carry members.\<close>

fun get_prop :: "json \<Rightarrow> string \<Rightarrow> json option" where
  "get_prop (JObj kvs) k = map_of (rev kvs) k"
| "get_prop v k = None"

text \<open>The truth value the \<^verbatim>\<open>!\<close> operator sees.\<close>

fun truthy :: "json option \<Rightarrow> bool" where
  "truthy None = False"
| "truthy (Some JNull) = False"
| "truthy (Some (JBool b)) = b"
| "truthy (Some (JNum n)) = (n \<noteq> 0)"
| "truthy (Some (JStr s)) = (s \<noteq> [])"
| "truthy (Some (JArr xs)) = True"
| "truthy (Some (JObj kvs)) = True"

datatype resp_body = TextBody string | PdfBody "nat list"

record response =
  r_status :: nat
  r_headers :: "(string \<times> string) list"
  r_body :: resp_body

datatype event = BrowserLaunched | BrowserClosed

text \<open>
  What the handler calls and does not define: the JSON parser behind \<^verbatim>\<open>req.json()\<close>,
  the message of the \<^verbatim>\<open>TypeError\<close> that the engine raises on a value, the Markdown
  renderer, the resolution of a browser (\<open>Some m\<close> when it throws the message \<open>m\<close>), the
  launch, the page steps from \<^verbatim>\<open>newPage\<close> to \<^verbatim>\<open>page.pdf\<close>, and
  \<^verbatim>\<open>browser.close\<close>. A left injection is the message of the error thrown.
\<close>

record pdf_env =
  json_parse :: "string \<Rightarrow> string + json"
  typeErrorMessage :: "json \<Rightarrow> string"
  md_render :: "json \<Rightarrow> string + string"
  getBrowserLauncher :: "string option"
  launch :: "string option"
  print_pdf :: "string \<Rightarrow> string + nat list"
  close_browser :: "string option"

subsection \<open>Helpers of the handler\<close>

fun escape_char :: "char \<Rightarrow> string" where
  "escape_char c =
     (if c = CHR ''&'' then ''&amp;''
      else if c = CHR ''<'' then ''&lt;''
      else if c = CHR ''>'' then ''&gt;''
      else if c = CHR 0x22 then ''&quot;''
      else if c = CHR 0x27 then ''&#39;''
      else [c])"

definition escapeHtml :: "string \<Rightarrow> string" where
  "escapeHtml s = concat (map escape_char s)"

text \<open>
  The class \<^verbatim>\<open>[a-z0-9_\-\.]\<close> under the flag \<^verbatim>\<open>i\<close>: ASCII letters of both cases,
  digits, underscore, hyphen and dot.
\<close>

definition allowed :: "char \<Rightarrow> bool" where
  "allowed c \<longleftrightarrow>
     (CHR ''a'' \<le> c \<and> c \<le> CHR ''z'') \<or> (CHR ''A'' \<le> c \<and> c \<le> CHR ''Z'') \<or>
     (CHR ''0'' \<le> c \<and> c \<le> CHR ''9'') \<or> c = CHR ''_'' \<or> c = CHR ''-'' \<or> c = CHR ''.''"

text \<open>
  \<^verbatim>\<open>s.replace(/[^a-z0-9_\-\.]+/gi, "_")\<close>: the scan copies an allowed character; at a
  character outside the class the greedy \<^verbatim>\<open>+\<close> takes all that follow outside the
  class, and the match is replaced by one underscore.
\<close>

function sanitizeFileName :: "string \<Rightarrow> string" where
  "sanitizeFileName [] = []"
| "sanitizeFileName (c # cs) =
     (if allowed c then c # sanitizeFileName cs
      else CHR ''_'' # sanitizeFileName (dropWhile (\<lambda>x. \<not> allowed x) cs))"
  by pat_completeness auto
termination
  by (relation "measure length") (auto simp: length_dropWhile_le less_Suc_eq_le)

definition html_head :: string where
  "html_head =
     ''<!doctype html>'' @ [CHR 0x0A] @ ''<html>'' @ [CHR 0x0A] @ ''<head>'' @ [CHR 0x0A] @
     ''<meta charset='' @ [CHR 0x22] @ ''utf-8'' @ [CHR 0x22] @ ''/>'' @ [CHR 0x0A] @
     ''<title>''"

definition html_style :: string where
  "html_style =
     ''</title>'' @ [CHR 0x0A] @ ''<style>'' @ [CHR 0x0A] @
     ''  @page { size: A4; margin: 20mm; }'' @ [CHR 0x0A] @
     ''  *,*::before,*::after { box-sizing: border-box; }'' @ [CHR 0x0A] @
     ''  body { font-family: ui-sans-serif, system-ui, -apple-system, '' @ [CHR 0x22] @
     ''Segoe UI'' @ [CHR 0x22] @ '', Roboto, Arial; color:#111; }'' @ [CHR 0x0A] @
     ''  h1,h2,h3 { color:#0f172a; margin: 18px 0 10px; }'' @ [CHR 0x0A] @
     ''  pre { background:#0b1220; color:#e5e7eb; padding:12px; border-radius'' @ '':8px;'' @
     [CHR 0x0A] @
     ''  white-space:pre; overflow-x:auto; overflow-wrap:normal; word-break:n'' @
     ''ormal; }'' @ [CHR 0x0A] @ ''  code { white-space:inherit; }'' @ [CHR 0x0A] @
     ''  code { font-family: ui-monospace, SFMono-Regular, Menlo, Consolas, '' @ [CHR 0x22] @
     ''Liberation Mono'' @ [CHR 0x22] @ '', monospace; }'' @ [CHR 0x0A] @
     ''  a { color:#0369a1; text-decoration:none; } a:hover { text-decoration'' @
     '':underline; }'' @ [CHR 0x0A] @
     ''  blockquote { border-left:4px solid #e5e7eb; padding-left:10px; color'' @
     '':#374151; }'' @ [CHR 0x0A] @
     ''  hr { border:none; border-top:1px solid #e5e7eb; margin:24px 0; }'' @ [CHR 0x0A] @
     ''  table { border-collapse: collapse; width: 100%; }'' @ [CHR 0x0A] @
     ''  th, td { border: 1px solid #e5e7eb; padding: 6px 8px; font-size: 12p'' @ ''x; }'' @
     [CHR 0x0A] @ ''  th { background: #f8fafc; text-align: left; }'' @ [CHR 0x0A] @
     ''</style>'' @ [CHR 0x0A] @ ''</head>'' @ [CHR 0x0A] @ ''<body>''"

definition html_tail :: string where
  "html_tail =
     ''</body>'' @ [CHR 0x0A] @ ''</html>''"

definition html_page :: "string \<Rightarrow> string \<Rightarrow> string" where
  "html_page title body = html_head @ escapeHtml title @ html_style @ body @ html_tail"

subsection \<open>The handler\<close>

text \<open>
  The steps of \<^verbatim>\<open>POST\<close> in the order of the source, each able to throw; the
  \<^verbatim>\<open>catch\<close> clause turns a thrown message into the 500 response. The second
  component lists what happened to the browser. Destructuring \<^verbatim>\<open>null\<close> throws a
  \<^verbatim>\<open>TypeError\<close>, and so does \<^verbatim>\<open>escapeHtml\<close> on a title that is not a string.
\<close>

definition error_response :: "string \<Rightarrow> response" where
  "error_response msg = \<lparr>r_status = 500, r_headers = [], r_body = TextBody (''PDF error: '' @ msg)\<rparr>"

definition pdf_response :: "string \<Rightarrow> nat list \<Rightarrow> response" where
  "pdf_response title pdf =
     \<lparr>r_status = 200,
      r_headers =
        [(''Content-Type'', ''application/pdf''),
         (''Content-Disposition'',
            ''attachment; filename='' @ [CHR 0x22] @ sanitizeFileName title @ ''.pdf'' @ [CHR 0x22]),
         (''Cache-Control'', ''no-store'')],
      r_body = PdfBody pdf\<rparr>"

definition markdown_required :: response where
  "markdown_required = \<lparr>r_status = 400, r_headers = [], r_body = TextBody ''markdown required''\<rparr>"

text \<open>\<^verbatim>\<open>title = "dossie"\<close> in the destructuring pattern: the default of an absent member.\<close>

definition title_of :: "json \<Rightarrow> json" where
  "title_of v = (case get_prop v ''title'' of None \<Rightarrow> JStr ''dossie'' | Some t \<Rightarrow> t)"

definition POST :: "pdf_env \<Rightarrow> string \<Rightarrow> response \<times> event list" where
  "POST env req_body =
     (case json_parse env req_body of
        Inl msg \<Rightarrow> (error_response msg, [])
      | Inr v \<Rightarrow>
          if v = JNull then (error_response (typeErrorMessage env v), [])
          else
            (case (if truthy (get_prop v ''markdown'') then get_prop v ''markdown'' else None) of
               None \<Rightarrow> (markdown_required, [])
             | Some markdown \<Rightarrow>
                 (case md_render env markdown of
                    Inl msg \<Rightarrow> (error_response msg, [])
                  | Inr body \<Rightarrow>
                      (case title_of v of
                         JStr t \<Rightarrow>
                           (case getBrowserLauncher env of
                              Some msg \<Rightarrow> (error_response msg, [])
                            | None \<Rightarrow>
                                (case launch env of
                                   Some msg \<Rightarrow> (error_response msg, [])
                                 | None \<Rightarrow>
                                     (case print_pdf env (html_page t body) of
                                        Inl msg \<Rightarrow> (error_response msg, [BrowserLaunched])
                                      | Inr pdf \<Rightarrow>
                                          (case close_browser env of
                                             Some msg \<Rightarrow>
                                               (error_response msg, [BrowserLaunched])
                                           | None \<Rightarrow>
                                               (pdf_response t pdf,
                                                [BrowserLaunched, BrowserClosed])))))
                       | other \<Rightarrow> (error_response (typeErrorMessage env other), [])))))"

subsection \<open>The filename rule in the words of the spec\<close>

text \<open>
  The maximal runs of a text with respect to a class: each run is as long as the
  characters keep the class of its first one.
\<close>

function runs :: "('a \<Rightarrow> bool) \<Rightarrow> 'a list \<Rightarrow> 'a list list" where
  "runs P [] = []"
| "runs P (x # xs) =
     (x # takeWhile (\<lambda>y. P y = P x) xs) # runs P (dropWhile (\<lambda>y. P y = P x) xs)"
  by pat_completeness auto
termination
  by (relation "measure (\<lambda>(P, xs). length xs)") (auto simp: length_dropWhile_le less_Suc_eq_le)

text \<open>Every run outside the allowlist becomes one underscore; the other runs stay.\<close>

definition replace_runs :: "string \<Rightarrow> string" where
  "replace_runs s = concat (map (\<lambda>r. if allowed (hd r) then r else ''_'') (runs allowed s))"

subsection \<open>An example deployment\<close>

text \<open>
  A parser that knows four request bodies (the empty text is not JSON), a renderer that
  wraps text in a paragraph, a browser that is found and prints three bytes.
\<close>

definition quoted :: "string \<Rightarrow> string" where
  "quoted s = [CHR 0x22] @ s @ [CHR 0x22]"

definition body_empty_markdown :: string where
  "body_empty_markdown = ''{'' @ quoted ''markdown'' @ '':'' @ quoted [] @ ''}''"

definition body_hi :: string where
  "body_hi = ''{'' @ quoted ''markdown'' @ '':'' @ quoted ''# Hi'' @ ''}''"

definition body_titled :: string where
  "body_titled =
     ''{'' @ quoted ''markdown'' @ '':'' @ quoted ''# Hi'' @ '','' @
       quoted ''title'' @ '':'' @ quoted ''Q1 Report/2024'' @ ''}''"

definition demo_env :: pdf_env where
  "demo_env =
     \<lparr>json_parse = (\<lambda>s.
        if s = ''{}'' then Inr (JObj [])
        else if s = ''null'' then Inr JNull
        else if s = body_empty_markdown then Inr (JObj [(''markdown'', JStr [])])
        else if s = body_hi then Inr (JObj [(''markdown'', JStr ''# Hi'')])
        else if s = body_titled
          then Inr (JObj [(''markdown'', JStr ''# Hi''), (''title'', JStr ''Q1 Report/2024'')])
        else Inl ''Unexpected end of JSON input''),
      typeErrorMessage = (\<lambda>v. ''Cannot read properties''),
      md_render = (\<lambda>v. case v of JStr s \<Rightarrow> Inr (''<p>'' @ s @ ''</p>'')
                          | _ \<Rightarrow> Inl ''Input data should be a String''),
      getBrowserLauncher = None,
      launch = None,
      print_pdf = (\<lambda>html. Inr [37, 80, 68]),
      close_browser = None\<rparr>"

section \<open>Dossier assembler (lib/dossier/markdown.ts)\<close>

subsection \<open>Text helpers\<close>

text \<open>\<^verbatim>\<open>Array.prototype.join\<close> on a list of texts.\<close>

fun join :: "string \<Rightarrow> string list \<Rightarrow> string" where
  "join sep [] = []"
| "join sep [x] = x"
| "join sep (x # y # ys) = x @ sep @ join sep (y # ys)"

text \<open>
  \<^verbatim>\<open>String.prototype.split\<close> with a separator of one character: the pieces between the
  separators, an empty piece included; the result is never the empty list.
\<close>

fun split_on :: "char \<Rightarrow> string \<Rightarrow> string list" where
  "split_on d [] = [[]]"
| "split_on d (c # cs) =
     (if c = d then [] # split_on d cs
      else (case split_on d cs of [] \<Rightarrow> [[c]] | w # ws \<Rightarrow> (c # w) # ws))"

subsection \<open>The ASCII tree\<close>

text \<open>
  \<^verbatim>\<open>type TreeNode = { children: Map<string, TreeNode> }\<close>. A \<^verbatim>\<open>Map\<close> iterates in
  the order in which its keys were first set, so the children are an association list in
  that order.
\<close>

datatype TreeNode = TreeNode (children: "(string \<times> TreeNode) list")

text \<open>
  One step of the inner loop of \<open>buildAsciiTree\<close>: a part that the current node does not
  have is set to a fresh node (at the end of the map); the walk goes on in the node of that
  part. \<open>child_of\<close> is the node the walk goes on in, \<open>insert_parts\<close> the current node
  after all parts of one path are in.
\<close>

definition child_of :: "TreeNode \<Rightarrow> string \<Rightarrow> TreeNode" where
  "child_of cur part = (case map_of (children cur) part of None \<Rightarrow> TreeNode [] | Some child \<Rightarrow> child)"

fun insert_parts :: "string list \<Rightarrow> TreeNode \<Rightarrow> TreeNode" where
  "insert_parts [] cur = cur"
| "insert_parts (part # parts) cur =
     TreeNode (AList.update part (insert_parts parts (child_of cur part)) (children cur))"

text \<open>\<^verbatim>\<open>p.split("/").filter(Boolean)\<close>: the non-empty pieces of a path.\<close>

definition segments :: "string \<Rightarrow> string list" where
  "segments p = filter (\<lambda>s. s \<noteq> []) (split_on CHR ''/'' p)"

text \<open>The outer loop: every path is put into the trie that starts empty.\<close>

definition build_trie :: "string list \<Rightarrow> TreeNode" where
  "build_trie paths = fold (\<lambda>p root. insert_parts (segments p) root) paths (TreeNode [])"

text \<open>
  The box-drawing characters U+2523, U+2517 and U+2503 in UTF-8: the marker of a sibling
  that has later siblings, the marker of the last sibling, and the vertical bar.
\<close>

definition mid_branch :: string where "mid_branch = [CHR 0xE2, CHR 0x94, CHR 0xA3]"

definition last_branch :: string where "last_branch = [CHR 0xE2, CHR 0x94, CHR 0x97]"

definition bar :: string where "bar = [CHR 0xE2, CHR 0x94, CHR 0x83]"

text \<open>
  \<^verbatim>\<open>a.localeCompare(b)\<close> is a comparison of the platform. It is a parameter here: a
  collation key \<open>collate\<close> into a linear order, two names comparing as their keys do.
  \<^verbatim>\<open>Array.prototype.sort\<close> is stable, as \<open>sort_key\<close> is. \<open>print\<close> is the inner
  function of \<open>buildAsciiTree\<close>; the lines it pushes are its result.
\<close>

function print :: "(string \<Rightarrow> 'k::linorder) \<Rightarrow> TreeNode \<Rightarrow> string \<Rightarrow> string list" where
  "print collate node pfx =
     (let entries = sort_key (\<lambda>e. collate (fst e)) (children node) in
      concat (map (\<lambda>(idx, name, child).
          let isLast = (idx = length entries - 1);
              branch = (if isLast then last_branch else mid_branch);
              nextPrefix = pfx @ (if isLast then ''  '' else bar @ '' '') @ '' ''
          in (pfx @ branch @ '' '' @ name) #
             (if children child \<noteq> [] then print collate child nextPrefix else []))
        (enumerate 0 entries)))"
  by pat_completeness auto

termination
proof (relation "measure (\<lambda>(c, node, p). size node)", goal_cases)
  case 1
  show ?case by simp
next
  case (2 collate node pfx entries x idx y name child isLast branch nextPrefix)
  have sz: "(name, child) \<in> set cs \<Longrightarrow> size child < size (TreeNode cs)" for cs
    by (induction cs) auto
  from 2 have "(idx, name, child) \<in> set (zip [0..<0 + length entries] entries)"
    by (simp add: enumerate_eq_zip)
  then have "(name, child) \<in> set entries"
    by (rule set_zip_rightD)
  with 2 have "(name, child) \<in> set (children node)"
    by simp
  then have "size child < size node"
    using sz [of "children node"] by (cases node) simp
  then show ?case by simp
qed

definition buildAsciiTree :: "(string \<Rightarrow> 'k::linorder) \<Rightarrow> string list \<Rightarrow> string" where
  "buildAsciiTree collate paths =
     (if paths = [] then [] else join [CHR 0x0A] (print collate (build_trie paths) []))"

text \<open>
  The \<^verbatim>\<open>forEach\<close> loop of \<open>print\<close> as a recursion over the sorted entries: an entry
  is the last one when none follows it.
\<close>

fun render :: "(string \<Rightarrow> 'k::linorder) \<Rightarrow> string \<Rightarrow> (string \<times> TreeNode) list \<Rightarrow> string list" where
  "render collate pfx [] = []"
| "render collate pfx ((name, child) # rest) =
     (pfx @ (if rest = [] then last_branch else mid_branch) @ '' '' @ name) #
     (if children child \<noteq> []
      then print collate child (pfx @ (if rest = [] then ''  '' else bar @ '' '') @ '' '')
      else []) @
     render collate pfx rest"

subsection \<open>The sibling rule in the words of the spec\<close>

text \<open>The names of the children of a node in the order in which they are printed.\<close>

definition sibling_names :: "(string \<Rightarrow> 'k::linorder) \<Rightarrow> TreeNode \<Rightarrow> string list" where
  "sibling_names collate node = map fst (sort_key (\<lambda>e. collate (fst e)) (children node))"

text \<open>
  The lines of siblings under a prefix: every sibling but the last carries the marker
  \<open>mid_branch\<close>, exactly the last one carries \<open>last_branch\<close>.
\<close>

definition sibling_lines :: "string \<Rightarrow> string list \<Rightarrow> string list" where
  "sibling_lines pfx names =
     (if names = [] then []
      else map (\<lambda>name. pfx @ mid_branch @ '' '' @ name) (butlast names) @
           [pfx @ last_branch @ '' '' @ last names])"

text \<open>A line of the level that is printed under a prefix: the prefix, then a marker.\<close>

definition is_sibling_line :: "string \<Rightarrow> string \<Rightarrow> bool" where
  "is_sibling_line pfx l \<longleftrightarrow> prefix (pfx @ mid_branch) l \<or> prefix (pfx @ last_branch) l"

subsection \<open>What a trie holds\<close>



subsection \<open>An example tree\<close>

definition demo_paths :: "string list" where
  "demo_paths = [''src/b.ts'', ''README.md'', ''src/a.ts'']"


subsection \<open>The data of a dossier\<close>

text \<open>
  What the assembler takes from the platform: the collation key behind
  \<^verbatim>\<open>localeCompare\<close>, the UTF-16 code units of a text (a text is a list of UTF-8 bytes
  here, and \<^verbatim>\<open>Array.prototype.sort\<close> without a comparison orders texts by their
  code units), the text of \<^verbatim>\<open>new Date(d).toLocaleString()\<close> for a date text \<open>d\<close>,
  and \<^verbatim>\<open>String.prototype.toLowerCase\<close>.
\<close>

record 'k platform =
  pf_collate :: "string \<Rightarrow> 'k"
  pf_codeUnits :: "string \<Rightarrow> nat list"
  pf_formatDate :: "string \<Rightarrow> string"
  pf_toLowerCase :: "string \<Rightarrow> string"

text \<open>\<^verbatim>\<open>DossierMeta\<close>; an absent or \<^verbatim>\<open>null\<close> member is \<open>None\<close>.\<close>

record DossierMeta =
  m_owner :: string
  m_repo :: string
  m_description :: "string option"
  m_defaultBranch :: "string option"
  m_languages :: "string list option"
  m_techStackExtra :: "string list option"

record FileOut =
  f_path :: string
  f_content :: string

text \<open>
  Modelled from the spec: the type \<^verbatim>\<open>CommitReview\<close> of \<^verbatim>\<open>commitAnalysis\<close> is not
  among the source files. The spec lists its members (sha, message, timestamp, URL, added
  and removed line counts, changed-file count, flags); \<open>renderCommits\<close> reads exactly
  these. The counts are natural numbers.
\<close>

record CommitReview =
  c_sha :: string
  c_message :: string
  c_date :: string
  c_url :: string
  c_additions :: nat
  c_deletions :: nat
  c_filesChanged :: nat
  c_flags :: "string list"

record PackageSummary =
  p_name :: "string option"
  p_version :: "string option"
  p_dependencies :: "(string \<times> string) list option"
  p_devDependencies :: "(string \<times> string) list option"

subsection \<open>Helpers\<close>

text \<open>The em dash U+2014 in UTF-8, the placeholder of the templates.\<close>

definition dash :: string where
  "dash = [CHR 0xE2, CHR 0x80, CHR 0x94]"

text \<open>\<^verbatim>\<open>a || b\<close> on texts: the empty text is the only falsy one.\<close>

definition or_else :: "string \<Rightarrow> string \<Rightarrow> string" where
  "or_else a b = (if a = [] then b else a)"

text \<open>A number inside a template literal: its decimal digits.\<close>

definition digit_char :: "nat \<Rightarrow> char" where
  "digit_char d = ''0123456789'' ! d"

fun show_nat :: "nat \<Rightarrow> string" where
  "show_nat n =
     (if n < 10 then [digit_char n] else show_nat (n div 10) @ [digit_char (n mod 10)])"

text \<open>\<^verbatim>\<open>xs.pop()\<close> as a value: the last element, \<open>None\<close> on the empty array.\<close>

definition pop :: "'a list \<Rightarrow> 'a option" where
  "pop xs = (case rev xs of [] \<Rightarrow> None | x # _ \<Rightarrow> Some x)"

definition guessLang :: "'k platform \<Rightarrow> string \<Rightarrow> string" where
  "guessLang pf p =
     (let ext = (case pop (split_on CHR ''.'' p) of
                   None \<Rightarrow> []
                 | Some e \<Rightarrow> pf_toLowerCase pf e)
      in if ext = ''ts'' \<or> ext = ''mts'' \<or> ext = ''cts'' then ''ts''
         else if ext = ''tsx'' then ''tsx''
         else if ext = ''js'' \<or> ext = ''mjs'' \<or> ext = ''cjs'' then ''js''
         else if ext = ''jsx'' then ''jsx''
         else if ext = ''json'' then ''json''
         else if ext = ''md'' \<or> ext = ''markdown'' then ''md''
         else if ext = ''yml'' \<or> ext = ''yaml'' then ''yaml''
         else if ext = ''env'' then ''dotenv''
         else if ext = ''css'' then ''css''
         else if ext = ''html'' then ''html''
         else if ext = ''sql'' then ''sql''
         else [])"

text \<open>\<^verbatim>\<open>["```" + tag, content, "```"].join("\n")\<close>\<close>

definition fence :: "string \<Rightarrow> string \<Rightarrow> string" where
  "fence lang content =
     join [CHR 0x0A] [[CHR 0x60, CHR 0x60, CHR 0x60] @ lang, content, [CHR 0x60, CHR 0x60, CHR 0x60]]"

definition slug_char :: "char \<Rightarrow> bool" where
  "slug_char c \<longleftrightarrow> (CHR ''a'' \<le> c \<and> c \<le> CHR ''z'') \<or> (CHR ''0'' \<le> c \<and> c \<le> CHR ''9'')"

text \<open>\<^verbatim>\<open>.replace(/[^a-z0-9]+/g, "-")\<close>, scanned like the file name rule.\<close>

function slug_scan :: "string \<Rightarrow> string" where
  "slug_scan [] = []"
| "slug_scan (c # cs) =
     (if slug_char c then c # slug_scan cs
      else CHR ''-'' # slug_scan (dropWhile (\<lambda>x. \<not> slug_char x) cs))"
  by pat_completeness auto
termination
  by (relation "measure length") (auto simp: length_dropWhile_le less_Suc_eq_le)

definition slug :: "'k platform \<Rightarrow> string \<Rightarrow> string" where
  "slug pf s = slug_scan (pf_toLowerCase pf s)"

subsection \<open>The commit table\<close>

text \<open>\<^verbatim>\<open>.replace(/\|/g, "\\|")\<close>: a backslash before every pipe.\<close>

definition escape_pipes :: "string \<Rightarrow> string" where
  "escape_pipes s = concat (map (\<lambda>c. if c = CHR ''|'' then [CHR 0x5C, CHR ''|''] else [c]) s)"

text \<open>\<^verbatim>\<open>.split("\n")[0]\<close>\<close>

definition first_line :: "string \<Rightarrow> string" where
  "first_line s = (case split_on CHR 0x0A s of [] \<Rightarrow> [] | w # ws \<Rightarrow> w)"

definition commits_header :: string where
  "commits_header =
     ''| Data | SHA | Mensagem | +/- | Arquivos | Flags |'' @ [CHR 0x0A] @
     ''|---|---|---|---:|---:|---|'' @ [CHR 0x0A]"

definition commit_row :: "'k platform \<Rightarrow> CommitReview \<Rightarrow> string" where
  "commit_row pf c =
     (let short = take 7 (c_sha c);
          flags = or_else (join '', '' (c_flags c)) dash;
          delta = ''+'' @ show_nat (c_additions c) @ ''/-'' @ show_nat (c_deletions c);
          msg = first_line (escape_pipes (c_message c))
      in ''| '' @ pf_formatDate pf (c_date c) @ '' | ['' @ short @ ''](''  @ c_url c @ '') | '' @
         msg @ '' | '' @ delta @ '' | '' @ show_nat (c_filesChanged c) @ '' | '' @ flags @ '' |'')"

definition renderCommits :: "'k platform \<Rightarrow> CommitReview list \<Rightarrow> string" where
  "renderCommits pf commits = commits_header @ join [CHR 0x0A] (map (commit_row pf) commits)"

subsection \<open>The package summary and the closing list\<close>

definition mkTable :: "('k::linorder) platform \<Rightarrow> string \<Rightarrow> (string \<times> string) list \<Rightarrow> string" where
  "mkTable pf title entries =
     (if entries \<noteq> [] then
        ''**'' @ title @
        ''**'' @ [CHR 0x0A, CHR 0x0A] @ ''| Pacote | Vers'' @ [CHR 0xC3, CHR 0xA3] @
        ''o |'' @ [CHR 0x0A] @ ''|---|---|'' @ [CHR 0x0A] @
        join [CHR 0x0A]
          (map (\<lambda>(k, v). ''| '' @ k @ '' | '' @ v @ '' |'')
            (sort_key (\<lambda>e. pf_collate pf (fst e)) entries)) @
        [CHR 0x0A]
      else ''**'' @ title @
        ''**'' @ [CHR 0x0A, CHR 0x0A] @ ''_'' @ [CHR 0xE2, CHR 0x80, CHR 0x94] @ ''_'' @
     [CHR 0x0A])"

definition renderPackageSummary :: "('k::linorder) platform \<Rightarrow> PackageSummary option \<Rightarrow> string" where
  "renderPackageSummary pf pkg =
     (case pkg of
        None \<Rightarrow> []
      | Some pkg \<Rightarrow>
          let deps = (case p_dependencies pkg of None \<Rightarrow> [] | Some d \<Rightarrow> d);
              dev = (case p_devDependencies pkg of None \<Rightarrow> [] | Some d \<Rightarrow> d)
          in join [CHR 0x0A, CHR 0x0A]
               [''**Nome:** '' @
                  (case p_name pkg of None \<Rightarrow> dash | Some n \<Rightarrow> n) @
                  (''  '' @ [CHR 0x0A] @ ''**Vers'' @ [CHR 0xC3, CHR 0xA3] @ ''o:** '') @
                  (case p_version pkg of None \<Rightarrow> dash | Some v \<Rightarrow> v),
                mkTable pf ''Dependencies'' deps,
                mkTable pf ''DevDependencies'' dev])"

definition renderDoubtsMerged :: string where
  "renderDoubtsMerged =
     join [CHR 0x0A] (map (\<lambda>i. ''- '' @ i)
       [''Melhorar organiza'' @ [CHR 0xC3, CHR 0xA7, CHR 0xC3, CHR 0xA3] @
        ''o dos arquivos e remover duplica'' @
        [CHR 0xC3, CHR 0xA7, CHR 0xC3, CHR 0xB5] @ ''es.'',
      ''Refatorar componentes cr'' @ [CHR 0xC3, CHR 0xAD] @
        ''ticos e padronizar padr'' @ [CHR 0xC3, CHR 0xB5] @ ''es.'',
      ''Otimiza'' @ [CHR 0xC3, CHR 0xA7, CHR 0xC3, CHR 0xB5] @
        ''es de performance (lazy, cache, memoiza'' @
        [CHR 0xC3, CHR 0xA7, CHR 0xC3, CHR 0xA3] @ ''o).'',
      ''Garantir responsividade total (mobile-first).'',
      ''Ajustar chart de transa'' @ [CHR 0xC3, CHR 0xA7, CHR 0xC3, CHR 0xB5] @
        ''es (corte/overflow).'',
      ''Criar um 2'' @ [CHR 0xC2, CHR 0xBA] @ '' plano de assinatura e regras.'',
      ''Criar design secund'' @ [CHR 0xC3, CHR 0xA1] @ ''rio para assinatura espec'' @
        [CHR 0xC3, CHR 0xAD] @ ''fica.'',
      ''Exibir pop-ups/notifica'' @ [CHR 0xC3, CHR 0xA7, CHR 0xC3, CHR 0xB5] @
        ''es de atualiza'' @ [CHR 0xC3, CHR 0xA7, CHR 0xC3, CHR 0xA3] @ ''o.'',
      ''Trazer saldo do m'' @ [CHR 0xC3, CHR 0xAA] @ ''s anterior no dashboard.'',
      ''Selecionar per'' @ [CHR 0xC3, CHR 0xAD] @ ''odo para feedback de IA.'',
      ''Refor'' @ [CHR 0xC3, CHR 0xA7] @ ''ar boas pr'' @ [CHR 0xC3, CHR 0xA1] @
        ''ticas: commits granulares e descritivos.''])"

subsection \<open>The document\<close>

definition no_commits :: string where
  "no_commits = ''_Nenhum commit inclu'' @ [CHR 0xC3, CHR 0xAD] @ ''do no recorte._''"

definition not_found :: string where
  "not_found = ''_N'' @ [CHR 0xC3, CHR 0xA3] @ ''o localizado/selecionado._''"

definition no_files :: string where
  "no_files = ''_Nenhum arquivo selecionado._''"

definition file_section :: "'k platform \<Rightarrow> nat \<Rightarrow> FileOut \<Rightarrow> string" where
  "file_section pf i f =
     join [CHR 0x0A, CHR 0x0A]
       [''### '' @ show_nat (i + 1) @ ''. '' @ f_path f,
        ''<a id='' @ [CHR 0x22] @ slug pf (f_path f) @ [CHR 0x22] @ ''></a>'',
        fence (guessLang pf (f_path f)) (f_content f),
        []]"

text \<open>
  \<open>buildDossierMarkdown\<close>; \<open>now\<close> is the text of \<^verbatim>\<open>new Date().toLocaleString()\<close>
  at the moment of the call. The optional arguments are options. An array's
  \<^verbatim>\<open>sort()\<close> without a comparison is the stable sort by the code units of the
  texts.
\<close>

definition buildDossierMarkdown ::
  "('k::linorder) platform \<Rightarrow> string \<Rightarrow> DossierMeta \<Rightarrow> FileOut list \<Rightarrow> CommitReview list option \<Rightarrow>
     string list option \<Rightarrow> PackageSummary option \<Rightarrow> string option \<Rightarrow> string" where
  "buildDossierMarkdown pf now meta files commitsReviewed allPathsFlat packageJsonSummary
       envExampleContent =
     (let pathsForTree =
            sort_key (pf_codeUnits pf)
              (case allPathsFlat of None \<Rightarrow> map f_path files | Some ps \<Rightarrow> ps);
          treeText = buildAsciiTree (pf_collate pf) pathsForTree;
          filesSections =
            join [CHR 0x0A] (map (\<lambda>(i, f). file_section pf i f) (enumerate 0 files));
          commitsSection =
            (case commitsReviewed of
               None \<Rightarrow> no_commits
             | Some cs \<Rightarrow> if cs \<noteq> [] then renderCommits pf cs else no_commits);
          pkgBlock =
            (case packageJsonSummary of
               None \<Rightarrow> not_found
             | Some pkg \<Rightarrow> renderPackageSummary pf (Some pkg));
          envBlock =
            (case envExampleContent of
               None \<Rightarrow> not_found
             | Some env \<Rightarrow> if env \<noteq> [] then fence ''dotenv'' env else not_found);
          techStack =
            (case m_languages meta of None \<Rightarrow> [] | Some ls \<Rightarrow> ls) @
            [''Next.js 14'', ''TypeScript'', ''TailwindCSS''] @
            (case m_techStackExtra meta of None \<Rightarrow> [] | Some ts \<Rightarrow> ts);
          doubtsMerged = renderDoubtsMerged
      in ''# Dossi'' @ [CHR 0xC3, CHR 0xAA] @ '' do Projeto: '' @
       m_owner meta @
       ''/'' @
       m_repo meta @
       [CHR 0x0A, CHR 0x0A] @ ''**Gerado em:** '' @
       now @
       [CHR 0x0A, CHR 0x0A] @ ''> **Descri'' @ [CHR 0xC3, CHR 0xA7, CHR 0xC3, CHR 0xA3] @
       ''o:** '' @
       (case m_description meta of None \<Rightarrow> dash | Some d \<Rightarrow> d) @
       [CHR 0x0A] @ ''>'' @ [CHR 0x0A] @ ''> **Branch padr'' @ [CHR 0xC3, CHR 0xA3] @
       ''o:** '' @
       (case m_defaultBranch meta of None \<Rightarrow> ''main'' | Some b \<Rightarrow> b) @
       [CHR 0x0A] @ ''>'' @ [CHR 0x0A] @ ''> **Linguagens/Tecnologias:** '' @
       or_else (join '', '' techStack) dash @
       [CHR 0x0A, CHR 0x0A] @ ''---'' @ [CHR 0x0A, CHR 0x0A] @ ''## Sum'' @
       [CHR 0xC3, CHR 0xA1] @ ''rio'' @ [CHR 0x0A, CHR 0x0A] @
       ''- [1. Dados Gerais](#dados-gerais)'' @ [CHR 0x0A] @
       ''- [2. Estrutura de Pastas e Arquivos](#estrutura-de-pastas-e-arquivos)'' @
       [CHR 0x0A] @ ''- [3. C'' @ [CHR 0xC3, CHR 0xB3] @
       ''digos Selecionados](#codigos-selecionados)'' @ [CHR 0x0A] @ ''- [4. Hist'' @
       [CHR 0xC3, CHR 0xB3] @ ''rico de Commits](#historico-de-commits)'' @ [CHR 0x0A] @
       ''- [5. Tecnologias Utilizadas](#tecnologias-utilizadas)'' @ [CHR 0x0A] @
       ''- [6. Vari'' @ [CHR 0xC3, CHR 0xA1] @
       ''veis de Ambiente (.env.example)](#variaveis-de-ambiente-envexample)'' @
       [CHR 0x0A] @ ''- [7. Depend'' @ [CHR 0xC3, CHR 0xAA] @
       ''ncias (package.json)](#dependencias-packagejson)'' @ [CHR 0x0A] @ ''- [8. D'' @
       [CHR 0xC3, CHR 0xBA] @ ''vidas, Pontos Cr'' @ [CHR 0xC3, CHR 0xAD] @
       ''ticos ou Melhorias](#duvidas-pontos-criticos-ou-melhorias)'' @
       [CHR 0x0A, CHR 0x0A] @ ''---'' @ [CHR 0x0A, CHR 0x0A] @
       ''## 1. Dados Gerais  <a id='' @ [CHR 0x22] @ ''dados-gerais'' @ [CHR 0x22] @
       ''></a>'' @ [CHR 0x0A, CHR 0x0A] @ ''- Reposit'' @ [CHR 0xC3, CHR 0xB3] @
       ''rio: **'' @
       m_owner meta @
       ''/'' @
       m_repo meta @
       ''**'' @ [CHR 0x0A] @ ''- Descri'' @ [CHR 0xC3, CHR 0xA7, CHR 0xC3, CHR 0xA3] @
       ''o: '' @
       (case m_description meta of None \<Rightarrow> dash | Some d \<Rightarrow> d) @
       [CHR 0x0A] @ ''- Branch padr'' @ [CHR 0xC3, CHR 0xA3] @ ''o: '' @
       (case m_defaultBranch meta of None \<Rightarrow> ''main'' | Some b \<Rightarrow> b) @
       [CHR 0x0A, CHR 0x0A] @ ''---'' @ [CHR 0x0A, CHR 0x0A] @
       ''## 2. Estrutura de Pastas e Arquivos  <a id='' @ [CHR 0x22] @
       ''estrutura-de-pastas-e-arquivos'' @ [CHR 0x22] @ ''></a>'' @ [CHR 0x0A, CHR 0x0A] @
       fence ''text'' (or_else treeText dash) @
       [CHR 0x0A, CHR 0x0A] @ ''---'' @ [CHR 0x0A, CHR 0x0A] @ ''## 3. C'' @
       [CHR 0xC3, CHR 0xB3] @ ''digos Selecionados  <a id='' @ [CHR 0x22] @
       ''codigos-selecionados'' @ [CHR 0x22] @ ''></a>'' @ [CHR 0x0A, CHR 0x0A] @
       or_else filesSections no_files @
       [CHR 0x0A, CHR 0x0A] @ ''---'' @ [CHR 0x0A, CHR 0x0A] @ ''## 4. Hist'' @
       [CHR 0xC3, CHR 0xB3] @ ''rico de Commits  <a id='' @ [CHR 0x22] @
       ''historico-de-commits'' @ [CHR 0x22] @ ''></a>'' @ [CHR 0x0A, CHR 0x0A] @
       commitsSection @
       [CHR 0x0A, CHR 0x0A] @ ''---'' @ [CHR 0x0A, CHR 0x0A] @
       ''## 5. Tecnologias Utilizadas  <a id='' @ [CHR 0x22] @ ''tecnologias-utilizadas'' @
       [CHR 0x22] @ ''></a>'' @ [CHR 0x0A, CHR 0x0A] @ ''- '' @
       join ([CHR 0x0A] @ ''- '') techStack @
       [CHR 0x0A, CHR 0x0A] @ ''---'' @ [CHR 0x0A, CHR 0x0A] @ ''## 6. Vari'' @
       [CHR 0xC3, CHR 0xA1] @ ''veis de Ambiente (.env.example)  <a id='' @ [CHR 0x22] @
       ''variaveis-de-ambiente-envexample'' @ [CHR 0x22] @ ''></a>'' @ [CHR 0x0A, CHR 0x0A] @
       envBlock @
       [CHR 0x0A, CHR 0x0A] @ ''---'' @ [CHR 0x0A, CHR 0x0A] @ ''## 7. Depend'' @
       [CHR 0xC3, CHR 0xAA] @ ''ncias (package.json)  <a id='' @ [CHR 0x22] @
       ''dependencias-packagejson'' @ [CHR 0x22] @ ''></a>'' @ [CHR 0x0A, CHR 0x0A] @
       pkgBlock @
       [CHR 0x0A, CHR 0x0A] @ ''---'' @ [CHR 0x0A, CHR 0x0A] @ ''## 8. D'' @
       [CHR 0xC3, CHR 0xBA] @ ''vidas, Pontos Cr'' @ [CHR 0xC3, CHR 0xAD] @
       ''ticos ou Melhorias  <a id='' @ [CHR 0x22] @
       ''duvidas-pontos-criticos-ou-melhorias'' @ [CHR 0x22] @ ''></a>'' @
       [CHR 0x0A, CHR 0x0A] @
       doubtsMerged @
       [CHR 0x0A])"

subsection \<open>An example platform and two commit reviews\<close>

definition ascii_lower :: "char \<Rightarrow> char" where
  "ascii_lower c =
     (case map_of (zip ''ABCDEFGHIJKLMNOPQRSTUVWXYZ'' ''abcdefghijklmnopqrstuvwxyz'') c of
        None \<Rightarrow> c
      | Some l \<Rightarrow> l)"

text \<open>
  Names compare by their bytes, the code units of an ASCII text are its bytes, a date
  text is shown as it is, and only ASCII letters have a lower case.
\<close>

definition demo_platform :: "string platform" where
  "demo_platform =
     \<lparr>pf_collate = (\<lambda>s. s), pf_codeUnits = map of_char, pf_formatDate = (\<lambda>d. d),
      pf_toLowerCase = map ascii_lower\<rparr>"

definition demo_commits :: "CommitReview list" where
  "demo_commits =
     [\<lparr>c_sha = ''0123456789abcdef'', c_message = ''fix: a|b'' @ [CHR 0x0A, CHR 0x0A] @ ''body | more'',
       c_date = ''2024-01-02'', c_url = ''https://example.org/c/1'',
       c_additions = 12, c_deletions = 3, c_filesChanged = 2, c_flags = []\<rparr>,
      \<lparr>c_sha = ''fedcba9'', c_message = ''feat: tree'',
       c_date = ''2024-01-03'', c_url = ''https://example.org/c/2'',
       c_additions = 100, c_deletions = 0, c_filesChanged = 7, c_flags = [''large'', ''risky'']\<rparr>]"

subsection \<open>Two comparisons of names\<close>

text \<open>
  A collation that compares letters without regard to their case, as the first level of
  a locale's collation does: \<^verbatim>\<open>alpha\<close> stands before \<^verbatim>\<open>Zeta\<close>, where the order of the
  code units has \<^verbatim>\<open>Zeta\<close> first.
\<close>

definition case_folding_key :: "string \<Rightarrow> string" where
  "case_folding_key s = map ascii_lower s"




section \<open>Properties of the tree walker\<close>

declare walk.simps [simp del]

lemma walk_beyond [simp]: "MAX_DEPTH < depth \<Longrightarrow> walk api owner repo p depth = Inr []"
  by (simp add: walk.simps)

lemma walk_fetch_ok:
  "depth \<le> MAX_DEPTH \<Longrightarrow> getOctokitForUser api = None \<Longrightarrow>
   getContent api owner repo p = Inr data \<Longrightarrow>
   walk api owner repo p depth =
     (case walk_entries api owner repo (entries_of data) depth of
        Inl err \<Rightarrow>
          Inl (Error (if status err = Some 404 then ''Not Found'' else getErrorMessage err))
      | Inr out \<Rightarrow> Inr out)"
  by (simp add: walk.simps)

lemma walk_fetch_failed:
  "depth \<le> MAX_DEPTH \<Longrightarrow> getOctokitForUser api = None \<Longrightarrow>
   getContent api owner repo p = Inl err \<Longrightarrow>
   walk api owner repo p depth =
     Inl (Error (if status err = Some 404 then ''Not Found'' else getErrorMessage err))"
  by (simp add: walk.simps)

lemma walk_entries_append:
  "walk_entries api owner repo (xs @ ys) depth =
     (case walk_entries api owner repo xs depth of
        Inl err \<Rightarrow> Inl err
      | Inr a \<Rightarrow>
          (case walk_entries api owner repo ys depth of
             Inl err \<Rightarrow> Inl err
           | Inr b \<Rightarrow> Inr (a @ b)))"
  by (induction xs) (auto split: sum.splits entry_type.splits)



lemma walk_fetched:
  "depth \<le> MAX_DEPTH \<Longrightarrow> getOctokitForUser api = None \<Longrightarrow>
   getContent api owner repo p = Inr data \<Longrightarrow> walk api owner repo p depth = Inr out \<Longrightarrow>
   walk_entries api owner repo (entries_of data) depth = Inr out"
  using walk_fetch_ok [of depth api owner repo p data] by (simp split: sum.splits)

lemma from_fetch_renormalized:
  "from_fetch api owner repo e \<Longrightarrow>
     Error (if status e = Some 404 then ''Not Found'' else getErrorMessage e) = e"
  by (auto simp: from_fetch_def Error_def getErrorMessage_def)

lemma walk_error_origin:
  shows "getOctokitForUser api = None \<Longrightarrow> walk api owner repo p depth = Inl e \<Longrightarrow>
      from_fetch api owner repo e"
    and "getOctokitForUser api = None \<Longrightarrow> walk_entries api owner repo es depth = Inl e \<Longrightarrow>
      from_fetch api owner repo e"
proof (induction api owner repo p depth and api owner repo es depth arbitrary: e and e
    rule: walk_walk_entries.induct)
  case (1 api owner repo p depth)
  note a = \<open>getOctokitForUser api = None\<close> and w = \<open>walk api owner repo p depth = Inl e\<close>
  then have d: "\<not> MAX_DEPTH < depth" by (auto split: if_splits)
  show ?case
  proof (cases "getContent api owner repo p")
    case (Inl err)
    with a w d have "e = Error (if status err = Some 404 then ''Not Found'' else getErrorMessage err)"
      by (simp add: walk_fetch_failed)
    with Inl show ?thesis unfolding from_fetch_def by blast
  next
    case (Inr data)
    with a w d obtain e' where e': "walk_entries api owner repo (entries_of data) depth = Inl e'"
      and ee: "e = Error (if status e' = Some 404 then ''Not Found'' else getErrorMessage e')"
      using walk_fetch_ok [of depth api owner repo p data] by (auto split: sum.splits)
    from "1.IH"[OF d a Inr a e'] have "from_fetch api owner repo e'" .
    with ee show ?thesis by (simp add: from_fetch_renormalized)
  qed
next
  case (2 api owner repo depth)
  then show ?case by simp
next
  case (3 api owner repo e' es depth)
  then show ?case
    by (cases "e_type e'") (auto split: sum.splits)
qed



text \<open>
  Claim C2. When a walk succeeds and its listing holds a directory entry \<open>e\<close>, the result
  is the nodes of the entries before \<open>e\<close>, then the directory node of \<open>e\<close>, then
  the nodes of the recursive walk into \<open>e\<close>, then the nodes of the entries after
  \<open>e\<close>: the directory node stands before everything that the recursion into it
  produces. For owner \<^verbatim>\<open>acme\<close> and repository \<^verbatim>\<open>demo\<close> of the example the
  handler answers with exactly the three nodes of the spec, in that order.
\<close>

theorem walk_dir_before_children:
  "(depth \<le> MAX_DEPTH \<and> getOctokitForUser api = None \<and>
    getContent api owner repo p = Inr data \<and> entries_of data = pre @ e # post \<and>
    e_type e = Dir \<and> walk api owner repo p depth = Inr out \<longrightarrow>
      (\<exists>a sub b. walk_entries api owner repo pre depth = Inr a \<and>
                 walk api owner repo (e_path e) (depth + 1) = Inr sub \<and>
                 walk_entries api owner repo post depth = Inr b \<and>
                 out = a @ dir_node e # sub @ b)) \<and>
   GET demo_api ''acme'' ''demo'' = Json
     [\<lparr>n_path = ''README.md'', n_type = NFile, n_size = Some 10\<rparr>,
      \<lparr>n_path = ''src'', n_type = NDir, n_size = None\<rparr>,
      \<lparr>n_path = ''src/index.ts'', n_type = NFile, n_size = Some 20\<rparr>]"
proof (intro conjI impI)
  assume h: "depth \<le> MAX_DEPTH \<and> getOctokitForUser api = None \<and>
    getContent api owner repo p = Inr data \<and> entries_of data = pre @ e # post \<and>
    e_type e = Dir \<and> walk api owner repo p depth = Inr out"
  then have "walk_entries api owner repo (pre @ e # post) depth = Inr out"
    using walk_fetched by metis
  with h show "\<exists>a sub b. walk_entries api owner repo pre depth = Inr a \<and>
                 walk api owner repo (e_path e) (depth + 1) = Inr sub \<and>
                 walk_entries api owner repo post depth = Inr b \<and>
                 out = a @ dir_node e # sub @ b"
    by (simp only: walk_entries_append walk_entries.simps) (auto split: sum.splits)
next
  show "GET demo_api ''acme'' ''demo'' = Json
     [\<lparr>n_path = ''README.md'', n_type = NFile, n_size = Some 10\<rparr>,
      \<lparr>n_path = ''src'', n_type = NDir, n_size = None\<rparr>,
      \<lparr>n_path = ''src/index.ts'', n_type = NFile, n_size = Some 20\<rparr>]"
    by (simp add: GET_def walk.simps demo_api_def MAX_DEPTH_def dir_node_def file_node_def)
qed

theorem walk_dir_before_children_witness:
  "(0::nat) \<le> MAX_DEPTH \<and> getOctokitForUser demo_api = None \<and>
   getContent demo_api ''acme'' ''demo'' '''' =
     Inr (Listing [\<lparr>e_path = ''README.md'', e_type = File, e_size = 10\<rparr>,
                   \<lparr>e_path = ''src'', e_type = Dir, e_size = 0\<rparr>]) \<and>
   entries_of (Listing [\<lparr>e_path = ''README.md'', e_type = File, e_size = 10\<rparr>,
                        \<lparr>e_path = ''src'', e_type = Dir, e_size = 0\<rparr>]) =
     [\<lparr>e_path = ''README.md'', e_type = File, e_size = 10\<rparr>] @
       \<lparr>e_path = ''src'', e_type = Dir, e_size = 0\<rparr> # [] \<and>
   e_type \<lparr>e_path = ''src'', e_type = Dir, e_size = 0\<rparr> = Dir \<and>
   walk demo_api ''acme'' ''demo'' '''' 0 = Inr
     [\<lparr>n_path = ''README.md'', n_type = NFile, n_size = Some 10\<rparr>,
      \<lparr>n_path = ''src'', n_type = NDir, n_size = None\<rparr>,
      \<lparr>n_path = ''src/index.ts'', n_type = NFile, n_size = Some 20\<rparr>] \<and>
   walk_entries demo_api ''acme'' ''demo''
       [\<lparr>e_path = ''README.md'', e_type = File, e_size = 10\<rparr>] 0 =
     Inr [\<lparr>n_path = ''README.md'', n_type = NFile, n_size = Some 10\<rparr>] \<and>
   walk demo_api ''acme'' ''demo'' ''src'' (0 + 1) =
     Inr [\<lparr>n_path = ''src/index.ts'', n_type = NFile, n_size = Some 20\<rparr>] \<and>
   walk_entries demo_api ''acme'' ''demo'' [] 0 = Inr [] \<and>
   [\<lparr>n_path = ''README.md'', n_type = NFile, n_size = Some 10\<rparr>,
    \<lparr>n_path = ''src'', n_type = NDir, n_size = None\<rparr>,
    \<lparr>n_path = ''src/index.ts'', n_type = NFile, n_size = Some 20\<rparr>] =
     [\<lparr>n_path = ''README.md'', n_type = NFile, n_size = Some 10\<rparr>] @
       dir_node \<lparr>e_path = ''src'', e_type = Dir, e_size = 0\<rparr> #
       [\<lparr>n_path = ''src/index.ts'', n_type = NFile, n_size = Some 20\<rparr>] @ []"
  using walk_dir_before_children [of 0 demo_api "''acme''" "''demo''" "''''"
      "Listing [\<lparr>e_path = ''README.md'', e_type = File, e_size = 10\<rparr>,
                \<lparr>e_path = ''src'', e_type = Dir, e_size = 0\<rparr>]"
      "[\<lparr>e_path = ''README.md'', e_type = File, e_size = 10\<rparr>]"
      "\<lparr>e_path = ''src'', e_type = Dir, e_size = 0\<rparr>" "[]"]
  by (simp add: walk.simps demo_api_def MAX_DEPTH_def dir_node_def file_node_def)

text \<open>
  Claim C3. When the walk from the root throws \<open>e\<close>, the handler answers with the text
  that \<open>getErrorMessage\<close> reads from \<open>e\<close> and with status 401 when that text is
  \<^verbatim>\<open>Unauthorized\<close> or \<^verbatim>\<open>No GitHub token\<close>, 404 when it is \<^verbatim>\<open>Not Found\<close>,
  and 502 in every other case. What the walk throws is either what the credential lookup
  threw or the normal form of a failed fetch: a fetch failure with status 404 becomes
  \<^verbatim>\<open>Error("Not Found")\<close>, every other fetch failure becomes an \<^verbatim>\<open>Error\<close> with
  the failure's message.
\<close>

theorem tree_error_status:
  "(walk api owner name '''' 0 = Inl e \<longrightarrow>
      GET api owner name =
        Text (getErrorMessage e)
          (if getErrorMessage e = ''Unauthorized'' \<or> getErrorMessage e = ''No GitHub token''
           then 401 else if getErrorMessage e = ''Not Found'' then 404 else 502)) \<and>
   (walk api owner name '''' 0 = Inl e \<longrightarrow>
      getOctokitForUser api = Some e \<or>
      (\<exists>q err. getContent api owner name q = Inl err \<and>
         e = Error (if status err = Some 404 then ''Not Found'' else getErrorMessage err))) \<and>
   (depth \<le> MAX_DEPTH \<and> getOctokitForUser api = None \<and>
    getContent api owner repo p = Inl err \<longrightarrow>
      walk api owner repo p depth =
        Inl (Error (if status err = Some 404 then ''Not Found'' else getErrorMessage err)))"
proof (intro conjI impI)
  assume "walk api owner name '''' 0 = Inl e"
  then show "GET api owner name =
        Text (getErrorMessage e)
          (if getErrorMessage e = ''Unauthorized'' \<or> getErrorMessage e = ''No GitHub token''
           then 401 else if getErrorMessage e = ''Not Found'' then 404 else 502)"
    by (simp add: GET_def Let_def)
next
  assume w: "walk api owner name '''' 0 = Inl e"
  show "getOctokitForUser api = Some e \<or>
      (\<exists>q err. getContent api owner name q = Inl err \<and>
         e = Error (if status err = Some 404 then ''Not Found'' else getErrorMessage err))"
  proof (cases "getOctokitForUser api")
    case None
    then have "from_fetch api owner name e"
      using w by (rule walk_error_origin(1))
    then show ?thesis by (simp add: from_fetch_def)
  next
    case (Some c)
    with w have "e = c" by (simp add: walk.simps MAX_DEPTH_def)
    with Some show ?thesis by simp
  qed
next
  assume "depth \<le> MAX_DEPTH \<and> getOctokitForUser api = None \<and>
    getContent api owner repo p = Inl err"
  then show "walk api owner repo p depth =
        Inl (Error (if status err = Some 404 then ''Not Found'' else getErrorMessage err))"
    by (simp add: walk_fetch_failed)
qed

text \<open>
  A missing repository is answered with 404, a missing token with 401, an exhausted quota
  with 502.
\<close>

theorem tree_error_status_witness:
  "walk demo_api ''acme'' ''nope'' '''' 0 = Inl (Error ''Not Found'') \<and>
   GET demo_api ''acme'' ''nope'' = Text ''Not Found'' 404 \<and>
   walk no_token_api ''acme'' ''demo'' '''' 0 = Inl (Error ''No GitHub token'') \<and>
   GET no_token_api ''acme'' ''demo'' = Text ''No GitHub token'' 401 \<and>
   getOctokitForUser no_token_api = Some (Error ''No GitHub token'') \<and>
   (0::nat) \<le> MAX_DEPTH \<and> getOctokitForUser rate_limited_api = None \<and>
   getContent rate_limited_api ''acme'' ''demo'' '''' =
     Inl (Thrown (Some 403) ''API rate limit exceeded'') \<and>
   walk rate_limited_api ''acme'' ''demo'' '''' 0 = Inl (Error ''API rate limit exceeded'') \<and>
   GET rate_limited_api ''acme'' ''demo'' = Text ''API rate limit exceeded'' 502"
  using
    tree_error_status [of demo_api "''acme''" "''nope''" "Error ''Not Found''"]
    tree_error_status [of no_token_api "''acme''" "''demo''" "Error ''No GitHub token''"]
    tree_error_status [of rate_limited_api "''acme''" "''demo''"
      "Error ''API rate limit exceeded''" 0 "''demo''" "''''"
      "Thrown (Some 403) ''API rate limit exceeded''"]
  by (simp add: walk.simps demo_api_def no_token_api_def rate_limited_api_def MAX_DEPTH_def
      Error_def getErrorMessage_def)

section \<open>Properties of the PDF exporter\<close>

lemma POST_parse_failed:
  "json_parse env b = Inl msg \<Longrightarrow> POST env b = (error_response msg, [])"
  by (simp add: POST_def)

lemma POST_null:
  "json_parse env b = Inr JNull \<Longrightarrow> POST env b = (error_response (typeErrorMessage env JNull), [])"
  by (simp add: POST_def)

lemma POST_falsy_markdown:
  "json_parse env b = Inr v \<Longrightarrow> v \<noteq> JNull \<Longrightarrow> \<not> truthy (get_prop v ''markdown'') \<Longrightarrow>
     POST env b = (markdown_required, [])"
  by (simp add: POST_def)

lemma POST_ok_header:
  assumes "r_status (fst (POST env b)) = 200"
  shows "\<exists>v t pdf. json_parse env b = Inr v \<and> title_of v = JStr t \<and>
           fst (POST env b) = pdf_response t pdf"
  using assms
  by (auto simp: POST_def error_response_def markdown_required_def pdf_response_def
      split: sum.splits option.splits json.splits if_splits)

subsection \<open>The runs of a text\<close>

lemma concat_runs: "concat (runs P xs) = xs"
  by (induction P xs rule: runs.induct) simp_all

lemma runs_homogeneous: "r \<in> set (runs P xs) \<Longrightarrow> r \<noteq> [] \<and> (\<forall>y\<in>set r. P y = P (hd r))"
proof (induction P xs rule: runs.induct)
  case (1 P)
  then show ?case by simp
next
  case (2 P x xs)
  from "2.prems" consider "r = x # takeWhile (\<lambda>y. P y = P x) xs"
    | "r \<in> set (runs P (dropWhile (\<lambda>y. P y = P x) xs))"
    by auto
  then show ?case
  proof cases
    case 1
    then show ?thesis by (auto dest: set_takeWhileD)
  next
    case 2
    then show ?thesis by (rule "2.IH")
  qed
qed

lemma sanitize_takeWhile:
  "sanitizeFileName cs = takeWhile allowed cs @ sanitizeFileName (dropWhile allowed cs)"
proof (induction cs)
  case Nil
  show ?case by simp
next
  case (Cons a cs)
  show ?case
  proof (cases "allowed a")
    case True
    then show ?thesis using Cons by simp
  next
    case False
    then show ?thesis by (simp del: sanitizeFileName.simps)
  qed
qed

lemma replace_runs_allowed:
  "allowed c \<Longrightarrow>
     replace_runs (c # cs) = c # takeWhile allowed cs @ replace_runs (dropWhile allowed cs)"
  by (simp add: replace_runs_def)

lemma replace_runs_other:
  "\<not> allowed c \<Longrightarrow>
     replace_runs (c # cs) = CHR ''_'' # replace_runs (dropWhile (\<lambda>x. \<not> allowed x) cs)"
  by (simp add: replace_runs_def)

lemma sanitize_runs: "sanitizeFileName s = replace_runs s"
proof (induction s rule: length_induct)
  case (1 s)
  show ?case
  proof (cases s)
    case Nil
    then show ?thesis by (simp add: replace_runs_def)
  next
    case (Cons c cs)
    show ?thesis
    proof (cases "allowed c")
      case True
      have "length (dropWhile allowed cs) < length s"
        unfolding Cons by (simp add: length_dropWhile_le less_Suc_eq_le)
      with 1 have ih: "sanitizeFileName (dropWhile allowed cs) = replace_runs (dropWhile allowed cs)"
        by blast
      have "sanitizeFileName (c # cs) = c # sanitizeFileName cs"
        using True by simp
      also have "\<dots> = c # takeWhile allowed cs @ sanitizeFileName (dropWhile allowed cs)"
        using sanitize_takeWhile [of cs] by simp
      also have "\<dots> = replace_runs (c # cs)"
        unfolding ih by (rule replace_runs_allowed [OF True, symmetric])
      finally show ?thesis unfolding Cons .
    next
      case False
      have "length (dropWhile (\<lambda>x. \<not> allowed x) cs) < length s"
        unfolding Cons by (simp add: length_dropWhile_le less_Suc_eq_le)
      with 1 have ih: "sanitizeFileName (dropWhile (\<lambda>x. \<not> allowed x) cs)
          = replace_runs (dropWhile (\<lambda>x. \<not> allowed x) cs)"
        by blast
      have "sanitizeFileName (c # cs) =
          CHR ''_'' # sanitizeFileName (dropWhile (\<lambda>x. \<not> allowed x) cs)"
        using False by simp
      also have "\<dots> = replace_runs (c # cs)"
        unfolding ih by (rule replace_runs_other [OF False, symmetric])
      finally show ?thesis unfolding Cons .
    qed
  qed
qed

subsection \<open>The claims\<close>

text \<open>
  Claim C7, as the spec states it, fails for the empty request body: the empty text is not
  JSON, \<^verbatim>\<open>req.json()\<close> throws inside the \<^verbatim>\<open>try\<close> block, and the
  \<^verbatim>\<open>catch\<close> clause answers with status 500, not 400.
\<close>

theorem pdf_empty_body_counterexample:
  "json_parse demo_env [] = Inl ''Unexpected end of JSON input'' \<and>
   POST demo_env [] =
     (\<lparr>r_status = 500, r_headers = [],
       r_body = TextBody ''PDF error: Unexpected end of JSON input''\<rparr>, []) \<and>
   r_status (fst (POST demo_env [])) \<noteq> 400 \<and>
   r_body (fst (POST demo_env [])) \<noteq> TextBody ''markdown required''"
  by (simp add: POST_def demo_env_def error_response_def body_empty_markdown_def body_hi_def
      body_titled_def quoted_def)

text \<open>
  Claim C7, amended. When the request body parses to a JSON value other than
  \<^verbatim>\<open>null\<close> that has no member \<^verbatim>\<open>markdown\<close>, the endpoint answers with status 400
  and the text \<^verbatim>\<open>markdown required\<close>. When the body does not parse (the empty body is
  such a body) or parses to \<^verbatim>\<open>null\<close>, it answers with status 500 and the text
  \<^verbatim>\<open>PDF error:\<close> followed by the message of the error. In all three cases no browser
  is launched.
\<close>

theorem pdf_missing_markdown:
  "(json_parse env b = Inr v \<and> v \<noteq> JNull \<and> get_prop v ''markdown'' = None \<longrightarrow>
      POST env b =
        (\<lparr>r_status = 400, r_headers = [], r_body = TextBody ''markdown required''\<rparr>, [])) \<and>
   (json_parse env b = Inl msg \<longrightarrow>
      POST env b =
        (\<lparr>r_status = 500, r_headers = [], r_body = TextBody (''PDF error: '' @ msg)\<rparr>, [])) \<and>
   (json_parse env b = Inr JNull \<longrightarrow>
      POST env b =
        (\<lparr>r_status = 500, r_headers = [],
          r_body = TextBody (''PDF error: '' @ typeErrorMessage env JNull)\<rparr>, []))"
  by (simp add: POST_parse_failed POST_null POST_falsy_markdown error_response_def
      markdown_required_def)

theorem pdf_missing_markdown_witness:
  "json_parse demo_env ''{}'' = Inr (JObj []) \<and> JObj [] \<noteq> JNull \<and>
   get_prop (JObj []) ''markdown'' = None \<and>
   POST demo_env ''{}'' =
     (\<lparr>r_status = 400, r_headers = [], r_body = TextBody ''markdown required''\<rparr>, []) \<and>
   json_parse demo_env [] = Inl ''Unexpected end of JSON input'' \<and>
   POST demo_env [] =
     (\<lparr>r_status = 500, r_headers = [],
       r_body = TextBody ''PDF error: Unexpected end of JSON input''\<rparr>, []) \<and>
   json_parse demo_env ''null'' = Inr JNull \<and>
   POST demo_env ''null'' =
     (\<lparr>r_status = 500, r_headers = [],
       r_body = TextBody ''PDF error: Cannot read properties''\<rparr>, [])"
  using
    pdf_missing_markdown [of demo_env "''{}''" "JObj []"]
    pdf_missing_markdown [of demo_env "[]" "JObj []" "''Unexpected end of JSON input''"]
    pdf_missing_markdown [of demo_env "''null''" "JObj []" "[]"]
  by (simp add: POST_def demo_env_def error_response_def markdown_required_def
      body_empty_markdown_def body_hi_def body_titled_def quoted_def)

text \<open>
  Claim C8. \<open>sanitizeFileName\<close> replaces every maximal run of characters outside the
  allowlist (ASCII letters, digits, underscore, hyphen, dot) by one underscore and keeps
  every other run; the runs concatenate to the title. The title \<^verbatim>\<open>Q1 Report/2024\<close> gives
  \<^verbatim>\<open>Q1_Report_2024\<close>. Every response of status 200 carries the header
  \<^verbatim>\<open>Content-Disposition\<close> with the sanitized title of the request followed by
  \<^verbatim>\<open>.pdf\<close> as the attachment's file name.
\<close>

theorem pdf_filename:
  "sanitizeFileName title = replace_runs title \<and>
   concat (runs allowed title) = title \<and>
   sanitizeFileName ''Q1 Report/2024'' = ''Q1_Report_2024'' \<and>
   (r_status (fst (POST env b)) = 200 \<longrightarrow>
      (\<exists>v t. json_parse env b = Inr v \<and> title_of v = JStr t \<and>
         map_of (r_headers (fst (POST env b))) ''Content-Disposition'' =
           Some (''attachment; filename='' @ quoted (replace_runs t @ ''.pdf''))))"
proof (intro conjI impI)
  show "sanitizeFileName title = replace_runs title" by (rule sanitize_runs)
  show "concat (runs allowed title) = title" by (rule concat_runs)
  show "sanitizeFileName ''Q1 Report/2024'' = ''Q1_Report_2024''"
    by (simp add: allowed_def)
next
  assume "r_status (fst (POST env b)) = 200"
  then obtain v t pdf where "json_parse env b = Inr v" "title_of v = JStr t"
    "fst (POST env b) = pdf_response t pdf"
    using POST_ok_header by blast
  then show "\<exists>v t. json_parse env b = Inr v \<and> title_of v = JStr t \<and>
         map_of (r_headers (fst (POST env b))) ''Content-Disposition'' =
           Some (''attachment; filename='' @ quoted (replace_runs t @ ''.pdf''))"
    by (simp add: pdf_response_def sanitize_runs quoted_def)
qed

theorem pdf_filename_witness:
  "r_status (fst (POST demo_env body_titled)) = 200 \<and>
   map_of (r_headers (fst (POST demo_env body_titled))) ''Content-Disposition'' =
     Some (''attachment; filename='' @ quoted ''Q1_Report_2024.pdf'') \<and>
   map_of (r_headers (fst (POST demo_env body_hi))) ''Content-Disposition'' =
     Some (''attachment; filename='' @ quoted ''dossie.pdf'')"
  using pdf_filename [of "''Q1 Report/2024''" demo_env body_titled]
  by (simp add: POST_def demo_env_def title_of_def pdf_response_def allowed_def
      body_empty_markdown_def body_hi_def body_titled_def quoted_def)

text \<open>
  Claim C9. A request body whose member \<^verbatim>\<open>markdown\<close> is the empty string is answered
  like one without the member: status 400, the text \<^verbatim>\<open>markdown required\<close>, and no
  browser is launched.
\<close>

theorem pdf_empty_markdown:
  "json_parse env b = Inr v \<and> get_prop v ''markdown'' = Some (JStr []) \<longrightarrow>
     POST env b =
       (\<lparr>r_status = 400, r_headers = [], r_body = TextBody ''markdown required''\<rparr>, [])"
proof
  assume h: "json_parse env b = Inr v \<and> get_prop v ''markdown'' = Some (JStr [])"
  then have "v \<noteq> JNull" by auto
  with h show "POST env b =
       (\<lparr>r_status = 400, r_headers = [], r_body = TextBody ''markdown required''\<rparr>, [])"
    by (simp add: POST_falsy_markdown markdown_required_def)
qed

theorem pdf_empty_markdown_witness:
  "json_parse demo_env body_empty_markdown = Inr (JObj [(''markdown'', JStr [])]) \<and>
   get_prop (JObj [(''markdown'', JStr [])]) ''markdown'' = Some (JStr []) \<and>
   POST demo_env body_empty_markdown =
     (\<lparr>r_status = 400, r_headers = [], r_body = TextBody ''markdown required''\<rparr>, [])"
  using pdf_empty_markdown [of demo_env body_empty_markdown "JObj [(''markdown'', JStr [])]"]
  by (simp add: POST_def demo_env_def markdown_required_def
      body_empty_markdown_def body_hi_def body_titled_def quoted_def)

section \<open>Properties of the ASCII tree\<close>

declare print.simps [simp del]

lemma print_loop:
  "concat (map (\<lambda>(idx, name, child).
          (pfx @ (if idx = n - 1 then last_branch else mid_branch) @ '' '' @ name) #
          (if children child \<noteq> []
           then print collate child (pfx @ (if idx = n - 1 then ''  '' else bar @ '' '') @ '' '')
           else []))
        (enumerate k es)) = render collate pfx es"
  if "n = k + length es"
  using that
proof (induction es arbitrary: k)
  case Nil
  show ?case by simp
next
  case (Cons e es)
  obtain name child where e: "e = (name, child)" by (cases e)
  have last: "(k = n - 1) = (es = [])" "(k = n - Suc 0) = (es = [])"
    using Cons.prems by auto
  have "n = Suc k + length es" using Cons.prems by simp
  from Cons.IH [OF this] show ?case
    by (simp add: e last)
qed

lemma print_render:
  "print collate node pfx = render collate pfx (sort_key (\<lambda>e. collate (fst e)) (children node))"
  unfolding print.simps [of collate node pfx] Let_def
  by (rule print_loop) simp

lemma sibling_lines_Cons:
  "sibling_lines pfx (name # rest) =
     (pfx @ (if rest = [] then last_branch else mid_branch) @ '' '' @ name) # sibling_lines pfx rest"
  by (simp add: sibling_lines_def)

lemma render_prefixed:
  assumes "\<And>name child p l. (name, child) \<in> set es \<Longrightarrow> l \<in> set (print collate child p) \<Longrightarrow> prefix p l"
    and "l \<in> set (render collate pfx es)"
  shows "prefix pfx l"
  using assms
proof (induction es)
  case Nil
  then show ?case by simp
next
  case (Cons e es)
  obtain name child where e: "e = (name, child)" by (cases e)
  from Cons.prems(2) consider
      "l = pfx @ (if es = [] then last_branch else mid_branch) @ '' '' @ name"
    | "children child \<noteq> []"
      "l \<in> set (print collate child (pfx @ (if es = [] then ''  '' else bar @ '' '') @ '' ''))"
    | "l \<in> set (render collate pfx es)"
    by (auto simp: e split: if_splits)
  then show ?case
  proof cases
    case 1
    then show ?thesis by simp
  next
    case 2
    have "prefix (pfx @ (if es = [] then ''  '' else bar @ '' '') @ '' '') l"
      using Cons.prems(1) [of name child l] 2(2) by (simp add: e)
    then show ?thesis by (rule append_prefixD)
  next
    case 3
    show ?thesis
    proof (rule Cons.IH [OF _ 3])
      fix name' child' p l'
      assume "(name', child') \<in> set es" "l' \<in> set (print collate child' p)"
      then show "prefix p l'"
        using Cons.prems(1) [of name' child' l' p] by simp
    qed
  qed
qed

lemma print_prefixed: "l \<in> set (print collate node pfx) \<Longrightarrow> prefix pfx l"
proof (induction node arbitrary: pfx l)
  case (TreeNode cs)
  show ?case
  proof (rule render_prefixed)
    show "l \<in> set (render collate pfx (sort_key (\<lambda>e. collate (fst e)) cs))"
      using TreeNode.prems by (simp add: print_render)
  next
    fix name child p l'
    assume "(name, child) \<in> set (sort_key (\<lambda>e. collate (fst e)) cs)"
      and l': "l' \<in> set (print collate child p)"
    then have "(name, child) \<in> set cs" by simp
    then show "prefix p l'"
      using TreeNode.IH [of "(name, child)" child l' p] l' by simp
  qed
qed

lemma not_sibling_nested:
  assumes "prefix (pfx @ (if b then ''  '' else bar @ '' '') @ '' '') l"
  shows "\<not> is_sibling_line pfx l"
proof
  assume "is_sibling_line pfx l"
  then obtain m where m: "m = mid_branch \<or> m = last_branch" and pm: "prefix (pfx @ m) l"
    by (auto simp: is_sibling_line_def)
  from prefix_same_cases [OF pm assms]
  have "prefix m ((if b then ''  '' else bar @ '' '') @ '' '') \<or>
        prefix ((if b then ''  '' else bar @ '' '') @ '' '') m"
    by simp
  with m show False
    by (auto simp: mid_branch_def last_branch_def bar_def split: if_splits)
qed

lemma sibling_line_self:
  "is_sibling_line pfx (pfx @ (if b then last_branch else mid_branch) @ '' '' @ name)"
  by (simp add: is_sibling_line_def)

lemma filter_render:
  "filter (is_sibling_line pfx) (render collate pfx es) = sibling_lines pfx (map fst es)"
proof (induction es)
  case Nil
  show ?case by (simp add: sibling_lines_def)
next
  case (Cons e es)
  obtain name child where e: "e = (name, child)" by (cases e)
  have nested: "filter (is_sibling_line pfx)
      (print collate child (pfx @ (if es = [] then ''  '' else bar @ '' '') @ '' '')) = []"
  proof -
    have "\<not> is_sibling_line pfx l"
      if "l \<in> set (print collate child (pfx @ (if es = [] then ''  '' else bar @ '' '') @ '' ''))"
      for l
      using print_prefixed [OF that] by (rule not_sibling_nested)
    then show ?thesis by (simp add: filter_empty_conv)
  qed
  have "map fst es = [] \<longleftrightarrow> es = []" by simp
  then show ?case
    using Cons.IH nested sibling_line_self [of pfx "es = []" name]
    by (simp add: e sibling_lines_Cons del: append.simps append_assoc)
qed

lemma render_sublist:
  "(name, child) \<in> set es \<Longrightarrow> children child \<noteq> [] \<Longrightarrow>
     \<exists>p. sublist (print collate child p) (render collate pfx es)"
proof (induction es)
  case Nil
  then show ?case by simp
next
  case (Cons e es)
  obtain name' child' where e: "e = (name', child')" by (cases e)
  show ?case
  proof (cases "(name, child) = e")
    case True
    with e Cons.prems(2) have "render collate pfx (e # es) =
        [pfx @ (if es = [] then last_branch else mid_branch) @ '' '' @ name] @
        print collate child (pfx @ (if es = [] then ''  '' else bar @ '' '') @ '' '') @
        render collate pfx es"
      by simp
    then show ?thesis unfolding sublist_def by blast
  next
    case False
    with Cons obtain p where "sublist (print collate child p) (render collate pfx es)"
      by auto
    then obtain a b where "render collate pfx es = a @ print collate child p @ b"
      unfolding sublist_def by blast
    then have "render collate pfx (e # es) =
        ((pfx @ (if es = [] then last_branch else mid_branch) @ '' '' @ name') #
         (if children child' \<noteq> []
          then print collate child' (pfx @ (if es = [] then ''  '' else bar @ '' '') @ '' '')
          else []) @ a) @ print collate child p @ b"
      by (simp add: e)
    then show ?thesis unfolding sublist_def by blast
  qed
qed














lemma insort_key_fst:
  "map fst (insort_key (\<lambda>e. collate (fst e)) x xs) = insort_key collate (fst x) (map fst xs)"
  by (induction xs) simp_all

lemma sorted_names:
  "map fst (sort_key (\<lambda>e. collate (fst e)) cs) = sort_key collate (map fst cs)"
  by (induction cs) (simp_all add: insort_key_fst)


lemma print_leaf: "print collate (TreeNode []) pfx = []"
  by (simp add: print_render)

lemma buildAsciiTree_join:
  "buildAsciiTree collate paths = join [CHR 0x0A] (print collate (build_trie paths) [])"
  by (simp add: buildAsciiTree_def build_trie_def print_leaf)






lemma demo_trie:
  "build_trie demo_paths =
     TreeNode [(''src'', TreeNode [(''b.ts'', TreeNode []), (''a.ts'', TreeNode [])]),
               (''README.md'', TreeNode [])]"
  by (simp add: build_trie_def demo_paths_def segments_def child_of_def)

subsection \<open>The claims about the ASCII tree\<close>

text \<open>
  Claim C4, as the spec states it, fails: the siblings are sorted with
  \<^verbatim>\<open>localeCompare\<close>, which is not the lexicographic order. Under a collation that
  compares letters before their case, \<^verbatim>\<open>alpha\<close> is printed before \<^verbatim>\<open>Zeta\<close>, and
  lexicographically \<^verbatim>\<open>Zeta\<close> is the smaller name.
\<close>

theorem ascii_tree_order_counterexample:
  "sibling_names case_folding_key (build_trie [''Zeta'', ''alpha'']) = [''alpha'', ''Zeta''] \<and>
   buildAsciiTree case_folding_key [''Zeta'', ''alpha''] =
     mid_branch @ '' alpha'' @ [CHR 0x0A] @ last_branch @ '' Zeta'' \<and>
   ''Zeta'' < ''alpha'' \<and>
   \<not> sorted [''alpha'', ''Zeta'']"
  by (simp add: sibling_names_def buildAsciiTree_join print_render build_trie_def segments_def
      child_of_def case_folding_key_def ascii_lower_def)

text \<open>
  Claim C4, amended. At every node and under every prefix, so at every depth of every tree
  that \<open>buildAsciiTree\<close> prints: the names of the siblings are the keys of the node's
  children, stably sorted by the comparison of the sort (\<open>collate\<close> stands for
  \<^verbatim>\<open>localeCompare\<close>), so they ascend in that comparison and names that it ties keep
  the order in which they were first put in; where the comparison is the lexicographic
  one, they are in lexicographic order. The lines of that level in the output are the
  lines of these names in this order, each sibling before the last with the marker
  \<open>mid_branch\<close> and exactly the last with \<open>last_branch\<close>; the two markers differ. The
  text returned is the lines printed for the trie of the paths, and the lines printed for
  a child that has children stand as one block inside the lines of its parent.
\<close>

theorem ascii_tree_siblings:
  "sibling_names collate node = sort_key collate (map fst (children node)) \<and>
   sorted (map collate (sibling_names collate node)) \<and>
   filter (\<lambda>name. collate name = k) (sibling_names collate node) =
     filter (\<lambda>name. collate name = k) (map fst (children node)) \<and>
   sorted (sibling_names (\<lambda>name. name) node) \<and>
   set (sibling_names collate node) = fst ` set (children node) \<and>
   length (sibling_names collate node) = length (children node) \<and>
   filter (is_sibling_line pfx) (print collate node pfx) =
     sibling_lines pfx (sibling_names collate node) \<and>
   mid_branch \<noteq> last_branch \<and>
   buildAsciiTree collate paths = join [CHR 0x0A] (print collate (build_trie paths) []) \<and>
   ((name, child) \<in> set (children node) \<and> children child \<noteq> [] \<longrightarrow>
      (\<exists>p. sublist (print collate child p) (print collate node pfx)))"
proof (intro conjI impI)
  show names: "sibling_names collate node = sort_key collate (map fst (children node))"
    by (simp only: sibling_names_def sorted_names)
  have "sorted (map collate (sort_key collate (map fst (children node))))"
    by (rule sorted_sort_key)
  then show "sorted (map collate (sibling_names collate node))"
    by (simp only: names)
  show "filter (\<lambda>name. collate name = k) (sibling_names collate node) =
     filter (\<lambda>name. collate name = k) (map fst (children node))"
    by (simp only: names sort_key_stable)
  have "sorted (map (\<lambda>name. name) (sort_key (\<lambda>name. name) (map fst (children node))))"
    by (rule sorted_sort_key)
  then show "sorted (sibling_names (\<lambda>name. name) node)"
    by (simp add: sibling_names_def sorted_names)
  show "set (sibling_names collate node) = fst ` set (children node)"
    by (simp add: sibling_names_def)
  show "length (sibling_names collate node) = length (children node)"
    by (simp add: sibling_names_def)
  show "filter (is_sibling_line pfx) (print collate node pfx) =
     sibling_lines pfx (sibling_names collate node)"
    by (simp only: print_render filter_render sibling_names_def)
  show "mid_branch \<noteq> last_branch"
    by (simp add: mid_branch_def last_branch_def)
  show "buildAsciiTree collate paths = join [CHR 0x0A] (print collate (build_trie paths) [])"
    by (rule buildAsciiTree_join)
next
  assume "(name, child) \<in> set (children node) \<and> children child \<noteq> []"
  then have "(name, child) \<in> set (sort_key (\<lambda>e. collate (fst e)) (children node))"
    and "children child \<noteq> []"
    by simp_all
  then show "\<exists>p. sublist (print collate child p) (print collate node pfx)"
    unfolding print_render [of collate node pfx] by (rule render_sublist)
qed

text \<open>The example paths, printed: \<^verbatim>\<open>README.md\<close> before \<^verbatim>\<open>src\<close>, and \<^verbatim>\<open>a.ts\<close> before \<^verbatim>\<open>b.ts\<close>.\<close>

theorem ascii_tree_siblings_witness:
  "(''src'', TreeNode [(''b.ts'', TreeNode []), (''a.ts'', TreeNode [])])
      \<in> set (children (build_trie demo_paths)) \<and>
   children (TreeNode [(''b.ts'', TreeNode []), (''a.ts'', TreeNode [])]) \<noteq> [] \<and>
   (\<exists>p. sublist
      (print (\<lambda>s. s) (TreeNode [(''b.ts'', TreeNode []), (''a.ts'', TreeNode [])]) p)
      (print (\<lambda>s. s) (build_trie demo_paths) [])) \<and>
   print (\<lambda>s. s) (build_trie demo_paths) [] =
     [mid_branch @ '' README.md'',
      last_branch @ '' src'',
      ''   '' @ mid_branch @ '' a.ts'',
      ''   '' @ last_branch @ '' b.ts'']"
proof -
  have h: "(''src'', TreeNode [(''b.ts'', TreeNode []), (''a.ts'', TreeNode [])])
      \<in> set (children (build_trie demo_paths)) \<and>
     children (TreeNode [(''b.ts'', TreeNode []), (''a.ts'', TreeNode [])]) \<noteq> []"
    by (simp add: demo_trie)
  have e: "print (\<lambda>s. s) (build_trie demo_paths) [] =
     [mid_branch @ '' README.md'',
      last_branch @ '' src'',
      ''   '' @ mid_branch @ '' a.ts'',
      ''   '' @ last_branch @ '' b.ts'']"
    by (simp add: demo_trie print_render)
  from h ascii_tree_siblings [of "\<lambda>s. s" "build_trie demo_paths" _ "[]" "[]"
      "''src''" "TreeNode [(''b.ts'', TreeNode []), (''a.ts'', TreeNode [])]"]
  have "\<exists>p. sublist
      (print (\<lambda>s. s) (TreeNode [(''b.ts'', TreeNode []), (''a.ts'', TreeNode [])]) p)
      (print (\<lambda>s. s) (build_trie demo_paths) [])"
    by blast
  with h e show ?thesis by blast
qed




section \<open>Properties of the dossier assembler\<close>

declare show_nat.simps [simp del]

lemma split_on_head: "\<exists>ws. split_on d s = takeWhile (\<lambda>c. c \<noteq> d) s # ws"
  by (induction s) (auto split: list.splits)

lemma first_line_takeWhile: "first_line s = takeWhile (\<lambda>c. c \<noteq> CHR 0x0A) s"
  using split_on_head [of "CHR 0x0A" s] by (auto simp: first_line_def)

lemma takeWhile_escape_pipes:
  "takeWhile (\<lambda>c. c \<noteq> CHR 0x0A) (escape_pipes s) =
     escape_pipes (takeWhile (\<lambda>c. c \<noteq> CHR 0x0A) s)"
  by (induction s) (simp_all add: escape_pipes_def)

lemma split_on_no_sep: "d \<notin> set x \<Longrightarrow> split_on d x = [x]"
  by (induction x) auto

lemma split_on_append_sep: "d \<notin> set x \<Longrightarrow> split_on d (x @ d # rest) = x # split_on d rest"
  by (induction x) auto

lemma split_on_join:
  "rows \<noteq> [] \<Longrightarrow> (\<forall>r\<in>set rows. d \<notin> set r) \<Longrightarrow> split_on d (join [d] rows) = rows"
  by (induction "[d]" rows rule: join.induct) (simp_all add: split_on_no_sep split_on_append_sep)

lemma commits_header_lines:
  "commits_header =
     join [CHR 0x0A] [''| Data | SHA | Mensagem | +/- | Arquivos | Flags |'',
                      ''|---|---|---|---:|---:|---|''] @ [CHR 0x0A]"
  by (simp add: commits_header_def)

lemma join_Cons: "rows \<noteq> [] \<Longrightarrow> join sep (x # rows) = x @ sep @ join sep rows"
  by (cases rows) simp_all

lemma commit_row_cells:
  "commit_row pf c =
     ''| '' @ pf_formatDate pf (c_date c) @ '' | ['' @ take 7 (c_sha c) @ ''](''  @ c_url c @
     '') | '' @ escape_pipes (takeWhile (\<lambda>x. x \<noteq> CHR 0x0A) (c_message c)) @
     '' | +'' @ show_nat (c_additions c) @ ''/-'' @ show_nat (c_deletions c) @
     '' | '' @ show_nat (c_filesChanged c) @
     '' | '' @ (if c_flags c = [] then dash else or_else (join '', '' (c_flags c)) dash) @ '' |''"
  by (simp add: commit_row_def Let_def first_line_takeWhile takeWhile_escape_pipes or_else_def)


text \<open>
  Claim C6. The commit table is the header followed by one row per commit review, in the
  order of the input, the rows joined by line feeds. The row of a review shows the
  formatted date, the first seven characters of the sha linked to the URL, the first line
  of the message with a backslash before every pipe, the counts as \<^verbatim>\<open>+N/-M\<close>, the
  number of changed files, and the flags joined by commas; an empty flag list shows the
  dash. When no row holds a line feed, the lines of the table are the two header lines and
  then exactly these rows.
\<close>

theorem commit_table_rows:
  "renderCommits pf commits = commits_header @ join [CHR 0x0A] (map (commit_row pf) commits) \<and>
   length (map (commit_row pf) commits) = length commits \<and>
   (\<forall>i<length commits.
      map (commit_row pf) commits ! i =
        ''| '' @ pf_formatDate pf (c_date (commits ! i)) @
        '' | ['' @ take 7 (c_sha (commits ! i)) @ ''](''  @ c_url (commits ! i) @
        '') | '' @ escape_pipes (takeWhile (\<lambda>x. x \<noteq> CHR 0x0A) (c_message (commits ! i))) @
        '' | +'' @ show_nat (c_additions (commits ! i)) @
        ''/-'' @ show_nat (c_deletions (commits ! i)) @
        '' | '' @ show_nat (c_filesChanged (commits ! i)) @
        '' | '' @ (if c_flags (commits ! i) = [] then dash
                   else or_else (join '', '' (c_flags (commits ! i))) dash) @ '' |'') \<and>
   (commits \<noteq> [] \<and> (\<forall>c\<in>set commits. CHR 0x0A \<notin> set (commit_row pf c)) \<longrightarrow>
      split_on CHR 0x0A (renderCommits pf commits) =
        ''| Data | SHA | Mensagem | +/- | Arquivos | Flags |'' #
        ''|---|---|---|---:|---:|---|'' # map (commit_row pf) commits)"
proof (intro conjI allI impI)
  show "renderCommits pf commits = commits_header @ join [CHR 0x0A] (map (commit_row pf) commits)"
    by (simp add: renderCommits_def)
  show "length (map (commit_row pf) commits) = length commits"
    by simp
next
  fix i
  assume "i < length commits"
  then show "map (commit_row pf) commits ! i =
        ''| '' @ pf_formatDate pf (c_date (commits ! i)) @
        '' | ['' @ take 7 (c_sha (commits ! i)) @ ''](''  @ c_url (commits ! i) @
        '') | '' @ escape_pipes (takeWhile (\<lambda>x. x \<noteq> CHR 0x0A) (c_message (commits ! i))) @
        '' | +'' @ show_nat (c_additions (commits ! i)) @
        ''/-'' @ show_nat (c_deletions (commits ! i)) @
        '' | '' @ show_nat (c_filesChanged (commits ! i)) @
        '' | '' @ (if c_flags (commits ! i) = [] then dash
                   else or_else (join '', '' (c_flags (commits ! i))) dash) @ '' |''"
    by (simp only: nth_map commit_row_cells)
next
  assume h: "commits \<noteq> [] \<and> (\<forall>c\<in>set commits. CHR 0x0A \<notin> set (commit_row pf c))"
  let ?rows = "map (commit_row pf) commits"
  let ?h1 = "''| Data | SHA | Mensagem | +/- | Arquivos | Flags |''"
  let ?h2 = "''|---|---|---|---:|---:|---|''"
  from h have rows: "?rows \<noteq> []" by simp
  have "renderCommits pf commits = join [CHR 0x0A] (?h1 # ?h2 # ?rows)"
    using rows by (simp add: renderCommits_def commits_header_lines join_Cons)
  moreover have "\<forall>r\<in>set (?h1 # ?h2 # ?rows). CHR 0x0A \<notin> set r"
    using h by auto
  ultimately show "split_on CHR 0x0A (renderCommits pf commits) = ?h1 # ?h2 # ?rows"
    by (simp only: split_on_join [of "?h1 # ?h2 # ?rows" "CHR 0x0A"] list.distinct
        not_False_eq_True)
qed

lemma demo_commit_rows:
  "map (commit_row demo_platform) demo_commits =
     [''| 2024-01-02 | [0123456](https://example.org/c/1) | fix: a'' @ [CHR 0x5C] @
        ''|b | +12/-3 | 2 | '' @ dash @ '' |'',
      ''| 2024-01-03 | [fedcba9](https://example.org/c/2) | feat: tree | +100/-0 | 7 | large, risky |'']"
  by (simp add: demo_commits_def demo_platform_def commit_row_cells escape_pipes_def
      show_nat.simps digit_char_def or_else_def)

theorem commit_table_rows_witness:
  "demo_commits \<noteq> [] \<and>
   list_all (\<lambda>c. CHR 0x0A \<notin> set (commit_row demo_platform c)) demo_commits \<and>
   (0::nat) < length demo_commits \<and>
   split_on CHR 0x0A (renderCommits demo_platform demo_commits) =
     [''| Data | SHA | Mensagem | +/- | Arquivos | Flags |'',
      ''|---|---|---|---:|---:|---|'',
      ''| 2024-01-02 | [0123456](https://example.org/c/1) | fix: a'' @ [CHR 0x5C] @
        ''|b | +12/-3 | 2 | '' @ dash @ '' |'',
      ''| 2024-01-03 | [fedcba9](https://example.org/c/2) | feat: tree | +100/-0 | 7 | large, risky |'']"
proof -
  have ne: "demo_commits \<noteq> []" and len: "(0::nat) < length demo_commits"
    by (simp_all add: demo_commits_def)
  have "\<forall>r\<in>set (map (commit_row demo_platform) demo_commits). CHR 0x0A \<notin> set r"
    unfolding demo_commit_rows by (simp add: dash_def)
  then have nl: "\<forall>c\<in>set demo_commits. CHR 0x0A \<notin> set (commit_row demo_platform c)"
    by simp
  then have la: "list_all (\<lambda>c. CHR 0x0A \<notin> set (commit_row demo_platform c)) demo_commits"
    by (simp add: list_all_iff)
  from commit_table_rows [of demo_platform demo_commits] ne nl
  have "split_on CHR 0x0A (renderCommits demo_platform demo_commits) =
        ''| Data | SHA | Mensagem | +/- | Arquivos | Flags |'' #
        ''|---|---|---|---:|---:|---|'' # map (commit_row demo_platform) demo_commits"
    by blast
  with ne la len show ?thesis
    by (simp only: demo_commit_rows) blast
qed

text \<open>
  Claim C5. The document is a fixed head (the title line with owner and repository, then
  the label of the field), the text of the clock, and a rest that does not depend on the
  clock. So two runs on the same inputs at two times share the head and the rest and
  differ in the field \<^verbatim>\<open>Gerado em\<close> only. The array of paths that a run leaves sorted
  in place (by code units) gives the same document as the array it was given.
\<close>

theorem dossier_deterministic:
  "(\<exists>post. \<forall>now.
      buildDossierMarkdown pf now meta files commitsReviewed allPathsFlat packageJsonSummary
          envExampleContent =
        ''# Dossi'' @ [CHR 0xC3, CHR 0xAA] @ '' do Projeto: '' @ m_owner meta @ ''/'' @
        m_repo meta @ [CHR 0x0A, CHR 0x0A] @ ''**Gerado em:** '' @ now @ post) \<and>
   (\<exists>head rest.
      buildDossierMarkdown pf now1 meta files commitsReviewed allPathsFlat packageJsonSummary
          envExampleContent = head @ now1 @ rest \<and>
      buildDossierMarkdown pf now2 meta files commitsReviewed allPathsFlat packageJsonSummary
          envExampleContent = head @ now2 @ rest) \<and>
   buildDossierMarkdown pf now meta files commitsReviewed
       (Some (sort_key (pf_codeUnits pf) ps)) packageJsonSummary envExampleContent =
     buildDossierMarkdown pf now meta files commitsReviewed (Some ps) packageJsonSummary
       envExampleContent"
proof (intro conjI)
  show one: "\<exists>post. \<forall>now.
      buildDossierMarkdown pf now meta files commitsReviewed allPathsFlat packageJsonSummary
          envExampleContent =
        ''# Dossi'' @ [CHR 0xC3, CHR 0xAA] @ '' do Projeto: '' @ m_owner meta @ ''/'' @
        m_repo meta @ [CHR 0x0A, CHR 0x0A] @ ''**Gerado em:** '' @ now @ post"
    unfolding buildDossierMarkdown_def Let_def
    by (intro exI allI) (rule refl)
  then obtain post where post: "\<And>now.
      buildDossierMarkdown pf now meta files commitsReviewed allPathsFlat packageJsonSummary
          envExampleContent =
        (''# Dossi'' @ [CHR 0xC3, CHR 0xAA] @ '' do Projeto: '' @ m_owner meta @ ''/'' @
         m_repo meta @ [CHR 0x0A, CHR 0x0A] @ ''**Gerado em:** '') @ now @ post"
    by (auto simp only: append_assoc)
  show "\<exists>head rest.
      buildDossierMarkdown pf now1 meta files commitsReviewed allPathsFlat packageJsonSummary
          envExampleContent = head @ now1 @ rest \<and>
      buildDossierMarkdown pf now2 meta files commitsReviewed allPathsFlat packageJsonSummary
          envExampleContent = head @ now2 @ rest"
    using post [of now1] post [of now2] by blast
  have "sort_key (pf_codeUnits pf) (sort_key (pf_codeUnits pf) ps) =
      sort_key (pf_codeUnits pf) ps"
    by (rule sort_key_id_if_sorted) (rule sorted_sort_key)
  then show "buildDossierMarkdown pf now meta files commitsReviewed
       (Some (sort_key (pf_codeUnits pf) ps)) packageJsonSummary envExampleContent =
     buildDossierMarkdown pf now meta files commitsReviewed (Some ps) packageJsonSummary
       envExampleContent"
    by (simp add: buildDossierMarkdown_def)
qed

end
